theory Spec2Isabelle
  imports Complex_Main "HOL-Library.Multiset" "HOL-Library.Log_Nat"
begin

section \<open>Python values, exceptions and indexing\<close>

text \<open>
  The exceptions the modelled functions can raise. \<open>MuonAverageError\<close> is the only
  exception class that \<^verbatim>\<open>average.py\<close> declares; the others are Python's and numpy's own.
  \<open>ValueError\<close> is what numpy raises when two shapes cannot be broadcast together and
  \<open>UnboundLocalError\<close> what Python raises when a local name is read that no branch bound.
  An \<open>IOError\<close> carries its message, since the command line entry point prints it.

  Floating-point numbers are modelled as exact reals, so rounding is not part of these
  definitions; the reduction is modelled a second time in double precision further
  below, for the one property that rounding decides.
\<close>

datatype error =
    MuonAverageError
  | IOError string
  | KeyError
  | IndexError
  | ValueError
  | UnboundLocalError
  | ImportError

text \<open>
  Indexing a sequence of length \<open>n\<close> with a Python integer: a negative index counts from
  the end, and an index outside \<open>[-n, n)\<close> raises \<open>IndexError\<close>.
\<close>

definition py_index :: "nat \<Rightarrow> int \<Rightarrow> nat option" where
  "py_index n i =
     (if 0 \<le> i \<and> i < int n then Some (nat i)
      else if - int n \<le> i \<and> i < 0 then Some (nat (int n + i))
      else None)"

definition getitem :: "'a list \<Rightarrow> int \<Rightarrow> error + 'a" where
  "getitem xs i =
     (case py_index (length xs) i of
        None \<Rightarrow> Inl IndexError
      | Some k \<Rightarrow> Inr (xs ! k))"

section \<open>Reading the results: \<^verbatim>\<open>muon_vibrational_average_read\<close>\<close>

text \<open>
  The displacement scheme object, as far as \<^verbatim>\<open>average.py\<close> touches it: the generated
  displacements and the weights. The class itself lives in \<^verbatim>\<open>schemes.py\<close>, which is not
  among the sources, so its method \<^verbatim>\<open>recalc_weights\<close> is a parameter \<open>rw\<close> of the
  read path below.
\<close>

record 'd scheme =
  displacements :: "'d list"
  weights :: "real list"

text \<open>
  A displaced structure as the read path sees it. \<open>hyperfine\<close> is the per-atom array
  \<^verbatim>\<open>a.get_array('hyperfine')\<close> (\<open>None\<close>: the array is absent and ASE raises
  \<open>KeyError\<close>); \<open>charges\<close> is \<^verbatim>\<open>a.get_charges()\<close> (\<open>None\<close>: ASE raises
  \<open>RuntimeError\<close>). A tensor is a value of a real vector space \<open>'v\<close>.
\<close>

record 'v atoms =
  hyperfine :: "'v list option"
  charges :: "real list option"

record ('v, 'd) collection =
  structures :: "'v atoms list"
  muon_index :: int
  displacement_scheme :: "'d scheme"

record 'x report =
  avgname :: string
  avg :: 'x
  vals :: "(nat \<times> real \<times> 'x) list"

text \<open>The two property reads of the loop body (lines 259-266).\<close>

definition get_hyperfine :: "int \<Rightarrow> 'v atoms \<Rightarrow> error + 'v" where
  "get_hyperfine mu_i a =
     (case hyperfine a of
        None \<Rightarrow> Inl KeyError
      | Some arr \<Rightarrow> getitem arr mu_i)"

definition get_charge :: "int \<Rightarrow> 'v atoms \<Rightarrow> error + real" where
  "get_charge mu_i a =
     (case charges a of
        None \<Rightarrow> Inl (IOError ''Could not read charges.'')
      | Some cs \<Rightarrow> getitem cs mu_i)"

text \<open>
  The loop \<^verbatim>\<open>for a in displaced_coll: to_avg.append(...)\<close> (lines 258-266): the first
  structure whose property cannot be read ends the loop with its exception.
\<close>

fun collect_to_avg :: "('a \<Rightarrow> error + 'x) \<Rightarrow> 'a list \<Rightarrow> error + 'x list" where
  "collect_to_avg f [] = Inr []"
| "collect_to_avg f (a # as) =
     (case f a of
        Inl e \<Rightarrow> Inl e
      | Inr v \<Rightarrow>
          (case collect_to_avg f as of
             Inl e \<Rightarrow> Inl e
           | Inr vs \<Rightarrow> Inr (v # vs)))"

text \<open>
  \<^verbatim>\<open>weights * to_avg\<close> (line 274), where \<open>ws\<close> is the sliced and reshaped weight array
  of shape \<open>(k, 1, ..., 1)\<close> and \<open>to_avg\<close> has shape \<open>(n, ...)\<close>. numpy broadcasts the
  leading axis when both lengths agree or one of them is 1, and raises \<open>ValueError\<close>
  otherwise.
\<close>

definition broadcast_mul :: "real list \<Rightarrow> 'x::real_vector list \<Rightarrow> error + 'x list" where
  "broadcast_mul ws to_avg =
     (if length ws = length to_avg then Inr (map2 (\<lambda>w v. w *\<^sub>R v) ws to_avg)
      else if length ws = 1 then Inr (map (\<lambda>v. hd ws *\<^sub>R v) to_avg)
      else if length to_avg = 1 then Inr (map (\<lambda>w. w *\<^sub>R hd to_avg) ws)
      else Inl ValueError)"

text \<open>
  Lines 271-274: \<^verbatim>\<open>weights = displsch.weights[(slice(N), None, ...)]\<close> keeps the first
  \<open>N\<close> weights (a slice past the end is cut short, never an error), and
  \<^verbatim>\<open>np.sum(weights*to_avg, axis=0)\<close> adds the products over the configurations.
\<close>

definition weighted_average :: "nat \<Rightarrow> real list \<Rightarrow> 'x::real_vector list \<Rightarrow> error + 'x" where
  "weighted_average N ws to_avg =
     (case broadcast_mul (take N ws) to_avg of
        Inl e \<Rightarrow> Inl e
      | Inr prods \<Rightarrow> Inr (sum_list prods))"

text \<open>
  The per-configuration lines of the report (lines 297-301):
  \<^verbatim>\<open>[... displsch.weights[i] ... for i, v in enumerate(to_avg)]\<close>. Reading a weight
  past the end of the weight array raises \<open>IndexError\<close>.
\<close>

fun report_vals :: "real list \<Rightarrow> nat \<Rightarrow> 'x list \<Rightarrow> error + (nat \<times> real \<times> 'x) list" where
  "report_vals ws i [] = Inr []"
| "report_vals ws i (v # vs) =
     (if i < length ws then
        (case report_vals ws (Suc i) vs of
           Inl e \<Rightarrow> Inl e
         | Inr r \<Rightarrow> Inr ((i, ws ! i, v) # r))
      else Inl IndexError)"

text \<open>
  Lines 256-301 for one property: collect the values, recompute the weights at
  \<open>average_T\<close>, average, and build the report. \<open>N\<close> is \<^verbatim>\<open>len(displaced_coll)\<close>.
  The scheme object is mutated by \<^verbatim>\<open>recalc_weights\<close>; the updated scheme is returned
  with the report.
\<close>

definition average_property ::
  "(real \<Rightarrow> 'd scheme \<Rightarrow> 'd scheme) \<Rightarrow> string \<Rightarrow> real \<Rightarrow> ('a \<Rightarrow> error + 'x::real_vector) \<Rightarrow>
   'a list \<Rightarrow> 'd scheme \<Rightarrow> error + ('d scheme \<times> 'x report)" where
  "average_property rw name average_T get coll displsch =
     (case collect_to_avg get coll of
        Inl e \<Rightarrow> Inl e
      | Inr to_avg \<Rightarrow>
          (let displsch' = rw average_T displsch;
               N = length coll
           in case weighted_average N (weights displsch') to_avg of
                Inl e \<Rightarrow> Inl e
              | Inr a \<Rightarrow>
                  (case report_vals (weights displsch') 0 to_avg of
                     Inl e \<Rightarrow> Inl e
                   | Inr r \<Rightarrow> Inr (displsch', \<lparr>avgname = name, avg = a, vals = r\<rparr>))))"

text \<open>
  \<^verbatim>\<open>muon_vibrational_average_read\<close>. \<open>loaded\<close> is the outcome of
  \<^verbatim>\<open>AtomsCollection.load_tree\<close>, whose exceptions are re-raised (lines 245-251).
  With an \<open>avgprop\<close> that is neither \<^verbatim>\<open>'hyperfine'\<close> nor \<^verbatim>\<open>'charge'\<close> the loop
  appends nothing, the product is taken with an empty array, and the lookup of the
  property's name in the report (line 278) raises \<open>KeyError\<close>.
\<close>

definition muon_vibrational_average_read ::
  "(real \<Rightarrow> 'd scheme \<Rightarrow> 'd scheme) \<Rightarrow> error + ('v::real_vector, 'd) collection \<Rightarrow> string \<Rightarrow> real \<Rightarrow>
   error + ('d scheme \<times> ('v report + real report))" where
  "muon_vibrational_average_read rw loaded avgprop average_T =
     (case loaded of
        Inl e \<Rightarrow> Inl e
      | Inr displaced_coll \<Rightarrow>
          (let mu_i = muon_index displaced_coll;
               displsch = displacement_scheme displaced_coll;
               coll = structures displaced_coll
           in if avgprop = ''hyperfine'' then
                (case average_property rw ''hyperfine tensor'' average_T
                        (get_hyperfine mu_i) coll displsch of
                   Inl e \<Rightarrow> Inl e
                 | Inr (s, r) \<Rightarrow> Inr (s, Inl r))
              else if avgprop = ''charge'' then
                (case average_property rw ''charge'' average_T
                        (get_charge mu_i) coll displsch of
                   Inl e \<Rightarrow> Inl e
                 | Inr (s, r) \<Rightarrow> Inr (s, Inr r))
              else
                (case weighted_average (length coll) (weights (rw average_T displsch))
                        ([] :: real list) of
                   Inl e \<Rightarrow> Inl e
                 | Inr a \<Rightarrow> Inl KeyError)))"

text \<open>
  Modelled from the spec: \<^verbatim>\<open>recalc_weights\<close> is a method of the scheme classes of
  \<^verbatim>\<open>schemes.py\<close>, which is not among the sources. The spec says that it
  ``(re)populates \<open>weights\<close> without regenerating geometry''. The weighting law itself
  (a function of the temperature and of the scheme) is a parameter.
\<close>

definition recalc_weights ::
  "(real \<Rightarrow> 'd scheme \<Rightarrow> real list) \<Rightarrow> real \<Rightarrow> 'd scheme \<Rightarrow> 'd scheme" where
  "recalc_weights law T s = s\<lparr>weights := law T s\<rparr>"

section \<open>The reduction in double precision\<close>

text \<open>
  The definitions above idealise Python's floats as real numbers, which settles what is
  multiplied and added but not how the sum is rounded. Whether the order of the
  configurations matters is decided by the rounding, so lines 271-274 are modelled once
  more, for scalar values (the charge), in IEEE 754 binary64 arithmetic.

  A pair \<open>(m, e)\<close> stands for the number \<open>m * 2 ^ e\<close>; a double is a number of that form
  with \<open>|m| < 2 ^ 53\<close>. Every operation returns the exact result rounded to the nearest double,
  ties to the even significand. The exponent is unbounded: overflow, subnormal numbers,
  infinities, NaN and the sign of zero are outside the model.
\<close>

type_synonym f64 = "int \<times> int"

definition f64_val :: "f64 \<Rightarrow> real" where
  "f64_val x =
     (case x of (m, e) \<Rightarrow>
        if 0 \<le> e then real_of_int m * 2 ^ nat e else real_of_int m / 2 ^ nat (- e))"

text \<open>
  Rounding to 53 significant bits: \<open>bitlen\<close> is the number of bits of the significand,
  \<open>k\<close> the number of bits to drop, \<open>r\<close> the part dropped and \<open>h\<close> half a unit in the last
  place kept.
\<close>

definition f64_round :: "f64 \<Rightarrow> f64" where
  "f64_round x =
     (case x of (m, e) \<Rightarrow>
        if bitlen \<bar>m\<bar> \<le> 53 then (m, e)
        else
          (let k = nat (bitlen \<bar>m\<bar> - 53);
               q = m div 2 ^ k;
               r = m mod 2 ^ k;
               h = 2 ^ (k - 1)
           in (if r < h then q else if h < r then q + 1 else if even q then q else q + 1,
               e + int k)))"

definition f64_add :: "f64 \<Rightarrow> f64 \<Rightarrow> f64" where
  "f64_add x y =
     (case x of (m1, e1) \<Rightarrow> case y of (m2, e2) \<Rightarrow>
        (let e = min e1 e2
         in f64_round (m1 * 2 ^ nat (e1 - e) + m2 * 2 ^ nat (e2 - e), e)))"

definition f64_mul :: "f64 \<Rightarrow> f64 \<Rightarrow> f64" where
  "f64_mul x y =
     (case x of (m1, e1) \<Rightarrow> case y of (m2, e2) \<Rightarrow> f64_round (m1 * m2, e1 + e2))"

text \<open>\<^verbatim>\<open>weights * to_avg\<close> (line 274) on doubles, with the broadcasting of \<open>broadcast_mul\<close>.\<close>

definition broadcast_mul_f64 :: "f64 list \<Rightarrow> f64 list \<Rightarrow> error + f64 list" where
  "broadcast_mul_f64 ws to_avg =
     (if length ws = length to_avg then Inr (map2 f64_mul ws to_avg)
      else if length ws = 1 then Inr (map (\<lambda>v. f64_mul (hd ws) v) to_avg)
      else if length to_avg = 1 then Inr (map (\<lambda>w. f64_mul w (hd to_avg)) ws)
      else Inl ValueError)"

text \<open>
  \<^verbatim>\<open>np.sum\<close> of a one-dimensional array of doubles. numpy adds fewer than eight
  elements one after the other, in the order of the array, rounding after every
  addition; the sum starts from zero, and zero plus the first element is the first
  element. Longer arrays are added in blocks by numpy's pairwise summation, which is not
  modelled: the result is \<open>None\<close> there.
\<close>

definition np_sum_f64 :: "f64 list \<Rightarrow> f64 option" where
  "np_sum_f64 xs =
     (if 8 \<le> length xs then None
      else (case xs of
              [] \<Rightarrow> Some (0, 0)
            | x # ys \<Rightarrow> Some (foldl f64_add x ys)))"

text \<open>Lines 271-274 on doubles: the counterpart of \<open>weighted_average\<close>.\<close>

definition weighted_average_f64 :: "nat \<Rightarrow> f64 list \<Rightarrow> f64 list \<Rightarrow> (error + f64) option" where
  "weighted_average_f64 N ws to_avg =
     (case broadcast_mul_f64 (take N ws) to_avg of
        Inl e \<Rightarrow> Some (Inl e)
      | Inr prods \<Rightarrow> map_option Inr (np_sum_f64 prods))"

section \<open>Gamma point phonons: \<^verbatim>\<open>read_castep_gamma_phonons\<close>\<close>

text \<open>
  The parsed phonon file (Euphonic's \<^verbatim>\<open>QpointPhononModes\<close>): one wavevector, one array
  of frequencies and one array of eigenvectors per q-point.
\<close>

record ('e, 'v) QpointPhononModes =
  qpts :: "(real \<times> real \<times> real) list"
  frequencies :: "'e list"
  eigenvectors :: "'v list"

text \<open>
  \<^verbatim>\<open>np.isclose(a, b)\<close> with numpy's default tolerances \<open>rtol = 1e-5\<close> and
  \<open>atol = 1e-8\<close>: \<open>|a - b| \<le> atol + rtol * |b|\<close>.
\<close>

definition isclose :: "real \<Rightarrow> real \<Rightarrow> bool" where
  "isclose a b = (\<bar>a - b\<bar> \<le> 1 / 10 ^ 8 + 1 / 10 ^ 5 * \<bar>b\<bar>)"

text \<open>The test of line 70: \<^verbatim>\<open>np.isclose(q, [0, 0, 0]).all()\<close>.\<close>

definition is_gamma :: "real \<times> real \<times> real \<Rightarrow> bool" where
  "is_gamma q = (case q of (x, y, z) \<Rightarrow> isclose x 0 \<and> isclose y 0 \<and> isclose z 0)"

text \<open>
  The search loop of lines 68-72: the index of the first q-point that passes the test,
  \<open>None\<close> when the loop ends without a \<^verbatim>\<open>break\<close>.
\<close>

fun gamma_index :: "nat \<Rightarrow> (real \<times> real \<times> real) list \<Rightarrow> nat option" where
  "gamma_index i [] = None"
| "gamma_index i (q # qs) = (if is_gamma q then Some i else gamma_index (Suc i) qs)"

text \<open>
  \<^verbatim>\<open>read_castep_gamma_phonons\<close>. \<open>parsed\<close> is the outcome of importing Euphonic and
  parsing the \<^verbatim>\<open>.phonon\<close> file (lines 46-65); its exceptions propagate.
\<close>

definition read_castep_gamma_phonons ::
  "error + ('e, 'v) QpointPhononModes \<Rightarrow> error + ('e \<times> 'v)" where
  "read_castep_gamma_phonons parsed =
     (case parsed of
        Inl e \<Rightarrow> Inl e
      | Inr pd \<Rightarrow>
          (case gamma_index 0 (qpts pd) of
             None \<Rightarrow> Inl MuonAverageError
           | Some gamma_i \<Rightarrow>
               (case getitem (frequencies pd) (int gamma_i) of
                  Inl e \<Rightarrow> Inl e
                | Inr evals \<Rightarrow>
                    (case getitem (eigenvectors pd) (int gamma_i) of
                       Inl e \<Rightarrow> Inl e
                     | Inr evecs \<Rightarrow> Inr (evals, evecs)))))"

section \<open>Writing the displaced structures: \<^verbatim>\<open>muon_vibrational_average_write\<close>\<close>

text \<open>
  The input structure as the write path reads it. \<open>castep_custom_species\<close> is
  \<^verbatim>\<open>cell.get_array('castep_custom_species')\<close> (\<open>None\<close>: \<open>KeyError\<close>, and the chemical
  symbols are used); \<open>castep_masses\<close> is \<^verbatim>\<open>parse_castep_masses(cell)\<close> (\<open>None\<close>:
  \<open>AttributeError\<close>, and ASE's masses are used).
\<close>

record 'p cell =
  castep_custom_species :: "string list option"
  chemical_symbols :: "string list"
  castep_masses :: "real list option"
  ase_masses :: "real list"
  positions :: 'p

text \<open>
  The outcome of lines 155-158: the phonon reader raised \<open>IOError\<close>, or a \<open>KeyError\<close>
  came from one of the dictionary lookups, or eigenvalues and eigenvectors were found.
\<close>

datatype ('e, 'v) phonon_read =
    ReadIOError string
  | ReadKeyError
  | ReadPhonons 'e 'v

text \<open>
  A call of one of the two scheme constructors of \<^verbatim>\<open>schemes.py\<close>, with the arguments
  in the order of lines 181-184.
\<close>

datatype ('e, 'v) scheme_call =
    IndependentDisplacements 'e 'v "real list" int int
  | MonteCarloDisplacements 'e 'v "real list"

fun call_masses :: "('e, 'v) scheme_call \<Rightarrow> real list" where
  "call_masses (IndependentDisplacements evals evecs masses i sigma_n) = masses"
| "call_masses (MonteCarloDisplacements evals evecs masses) = masses"

text \<open>What the write path has built when it hands the collection to \<^verbatim>\<open>save_tree\<close>.\<close>

record ('e, 'v, 'p) displaced =
  cell_species :: "string list"
  cell_masses :: "real list"
  displaced_positions :: "'p list"
  info_displacement_scheme :: "('e, 'v) scheme_call"
  info_muon_index :: int

text \<open>\<^verbatim>\<open>os.path.join\<close> of two components (POSIX).\<close>

definition os_path_join :: "string \<Rightarrow> string \<Rightarrow> string" where
  "os_path_join a b =
     (if b \<noteq> [] \<and> hd b = CHR ''/'' then b
      else if a = [] \<or> last a = CHR ''/'' then a @ b
      else a @ ''/'' @ b)"

text \<open>
  The strings of a numpy array: numpy stores a string padded with NUL characters and
  drops trailing NULs when it reads or compares one, so a string and the same string
  followed by NULs are one value to it.
\<close>

definition np_str :: "string \<Rightarrow> string" where
  "np_str s = rev (dropWhile (\<lambda>c. c = CHR 0x00) (rev s))"

text \<open>\<^verbatim>\<open>np.where(species == mu_symbol)[0]\<close> (line 129).\<close>

definition where_eq :: "string list \<Rightarrow> string \<Rightarrow> nat list" where
  "where_eq species mu_symbol =
     filter (\<lambda>i. np_str (species ! i) = np_str mu_symbol) [0..<length species]"

text \<open>
  Lines 129-138: find the muon. The result is the muon index and the species array that
  line 140 stores in the cell; in the last branch the array is rebuilt from a list
  (\<^verbatim>\<open>np.array(species)\<close>).
\<close>

definition find_muon :: "string list \<Rightarrow> string \<Rightarrow> int \<Rightarrow> error + (int \<times> string list)" where
  "find_muon species mu_symbol mu_index =
     (let mu_indices = where_eq species mu_symbol
      in if length mu_indices > 1 then Inl MuonAverageError
         else if length mu_indices = 1 then Inr (int (hd mu_indices), species)
         else (case py_index (length species) mu_index of
                 None \<Rightarrow> Inl IndexError
               | Some k \<Rightarrow> Inr (mu_index, map np_str (species[k := mu_symbol]))))"

text \<open>
  Lines 155-168: load the phonons. \<open>phpath\<close> and \<open>phfile\<close> are the directory and
  the seedname that lines 148-153 computed.
\<close>

definition load_phonons ::
  "('e, 'v) phonon_read \<Rightarrow> string \<Rightarrow> string \<Rightarrow> string \<Rightarrow> error + ('e \<times> 'v)" where
  "load_phonons ph phpath phfile phonon_source_type =
     (case ph of
        ReadIOError msg \<Rightarrow> Inl (IOError msg)
      | ReadKeyError \<Rightarrow>
          (let phonon_source_file = os_path_join phpath (phfile @ ''.phonon'');
               phonon_source_file =
                 (if phonon_source_type = ''dftb+'' then phonon_source_file @ ''s.pkl''
                  else phonon_source_file)
           in Inl (IOError (''Phonon file '' @ phonon_source_file @ '' could not be read.'')))
      | ReadPhonons ph_evals ph_evecs \<Rightarrow> Inr (ph_evals, ph_evecs))"

text \<open>
  \<^verbatim>\<open>muon_vibrational_average_write\<close>, lines 115-197 and 223-225. The muon mass
  \<open>m_mu_amu\<close> is a constant of \<^verbatim>\<open>constants.py\<close> and the scheme classes are those of
  \<^verbatim>\<open>schemes.py\<close>; neither file is among the sources, so both are parameters:
  \<open>displ call n T\<close> is the \<^verbatim>\<open>displacements\<close> attribute of the scheme built by the
  constructor call \<open>call\<close> after \<^verbatim>\<open>recalc_displacements(n=n, T=T)\<close>.
  The species labels are a numpy array of strings (lines 125-127), so each label is taken
  as numpy holds it. Writing the files (lines 199-221, 226-227) is not modelled.
\<close>

definition muon_vibrational_average_write ::
  "real \<Rightarrow> (('e, 'v) scheme_call \<Rightarrow> int \<Rightarrow> real \<Rightarrow> 'p list) \<Rightarrow>
   'p::plus cell \<Rightarrow> ('e, 'v) phonon_read \<Rightarrow> string \<Rightarrow> string \<Rightarrow> string \<Rightarrow>
   string \<Rightarrow> int \<Rightarrow> string \<Rightarrow> int \<Rightarrow> int \<Rightarrow> real \<Rightarrow> error + ('e, 'v, 'p) displaced" where
  "muon_vibrational_average_write m_mu_amu displ cell ph phpath phfile phonon_source_type
       method mu_index mu_symbol grid_n sigma_n displace_T =
     (let species = map np_str (case castep_custom_species cell of
                                  Some s \<Rightarrow> s
                                | None \<Rightarrow> chemical_symbols cell)
      in case find_muon species mu_symbol mu_index of
           Inl e \<Rightarrow> Inl e
         | Inr (mu_index, species) \<Rightarrow>
             (case load_phonons ph phpath phfile phonon_source_type of
                Inl e \<Rightarrow> Inl e
              | Inr (ph_evals, ph_evecs) \<Rightarrow>
                  (let masses = (case castep_masses cell of
                                   Some m \<Rightarrow> m
                                 | None \<Rightarrow> ase_masses cell)
                   in case py_index (length masses) mu_index of
                        None \<Rightarrow> Inl IndexError
                      | Some k \<Rightarrow>
                          (let masses = masses[k := m_mu_amu]
                           in case (if method = ''independent'' then
                                      Inr (IndependentDisplacements ph_evals ph_evecs masses
                                             mu_index sigma_n)
                                    else if method = ''montecarlo'' then
                                      Inr (MonteCarloDisplacements ph_evals ph_evecs masses)
                                    else Inl UnboundLocalError) of
                                Inl e \<Rightarrow> Inl e
                              | Inr displsch \<Rightarrow>
                                  (let pos = positions cell
                                   in Inr \<lparr>cell_species = species,
                                           cell_masses = masses,
                                           displaced_positions =
                                             map (\<lambda>d. pos + d) (displ displsch grid_n displace_T),
                                           info_displacement_scheme = displsch,
                                           info_muon_index = mu_index\<rparr>)))))"

section \<open>The command line entry point: \<^verbatim>\<open>nq_entry\<close>\<close>

text \<open>
  The parameter dictionary that \<^verbatim>\<open>load_input_file\<close> returns: a key is absent
  (\<open>None\<close>), or holds Python's \<^verbatim>\<open>None\<close> (\<open>Some None\<close>), or a value.
  Standard output is the text printed so far; \<^verbatim>\<open>print\<close> ends its text with a newline.
\<close>

type_synonym 'a params = "string \<rightharpoonup> 'a option"

definition print :: "string \<Rightarrow> string \<Rightarrow> string" where
  "print text out = out @ text @ ''\<newline>''"

text \<open>
  Lines 40-52: call the write or the read function with the parameters and report an
  \<open>IOError\<close> on standard output; any other exception propagates.
\<close>

definition dispatch ::
  "bool \<Rightarrow> ('a params \<Rightarrow> error + unit) \<Rightarrow> ('a params \<Rightarrow> error + unit) \<Rightarrow>
   'a params \<Rightarrow> string \<Rightarrow> error + string" where
  "dispatch w write_fn read_fn params out =
     (if w then
        (case write_fn params of
           Inl (IOError e) \<Rightarrow> Inr (print e out)
         | Inl e \<Rightarrow> Inl e
         | Inr u \<Rightarrow> Inr out)
      else
        (case read_fn params of
           Inl (IOError e) \<Rightarrow>
             Inr (print (''\<newline>This could mean it was impossible to find the displaced '' @
                         ''structure folder: maybe you wanted to run with the '' @
                         ''-w option to write it?\<newline>'')
                    (print (''Read/write error: '' @ e) out))
         | Inl e \<Rightarrow> Inl e
         | Inr u \<Rightarrow> Inr out))"

text \<open>
  \<^verbatim>\<open>nq_entry\<close>, from the loaded parameters on (lines 36-52). \<open>w\<close> is the \<^verbatim>\<open>-w\<close>
  flag; \<open>write_fn\<close> and \<open>read_fn\<close> stand for \<^verbatim>\<open>muon_vibrational_average_write\<close> and
  \<^verbatim>\<open>muon_vibrational_average_read\<close> called with the parameters as keyword arguments.
\<close>

definition nq_entry ::
  "bool \<Rightarrow> ('a params \<Rightarrow> error + unit) \<Rightarrow> ('a params \<Rightarrow> error + unit) \<Rightarrow>
   'a params \<Rightarrow> string \<Rightarrow> error + string" where
  "nq_entry w write_fn read_fn params out =
     (case params ''average_T'' of
        None \<Rightarrow> Inl KeyError
      | Some None \<Rightarrow>
          (case params ''displace_T'' of
             None \<Rightarrow> Inl KeyError
           | Some d \<Rightarrow> dispatch w write_fn read_fn (params(''average_T'' \<mapsto> d)) out)
      | Some (Some t) \<Rightarrow> dispatch w write_fn read_fn params out)"

section \<open>The DFTB parameter sets: \<^verbatim>\<open>dftb_pars.py\<close>\<close>

definition references_msg :: string where
  "references_msg =
     ''\<newline>'' @
     ''This calculation makes use of the DFTB parametrisations found at \<newline>'' @
     ''\<newline>'' @
     ''    https://www.dftb.org/\<newline>'' @
     ''\<newline>'' @
     ''All data is licensed under the Creative Commons Attribution-ShareAlike 4.0\<newline>'' @
     ''International License. For specific data sets remember to cite the following\<newline>'' @
     ''papers, by element:\<newline>'' @
     ''\<newline>'' @
     ''3-ob-3-1    \<newline>'' @
     ''    [JCTC2013]  J. Chem. Theory Comput., 2013, 9, 338-354.      (O, N, C, H)\<newline>'' @
     ''    [JCTC2014]  J. Chem. Theory Comput., 2014, 10, 1518-1537.   (P,S-*)\<newline>'' @
     ''    [JCTC2015-1]    J. Phys. Chem. B, 2015, 119, 1062-1082.     (Mg,Zn-*)\<newline>'' @
     ''    [JCTC2015-2]    J. Chem. Theory Comput., 2015, 11, 332-342. (Na,F,K,Ca,Cl,Br,I-*)\<newline>'' @
     ''\<newline>'' @
     ''pbc-0-3\<newline>'' @
     ''    [SiC]   E. Rauls, R. Gutierrez, J. Elsner, and Th. Frauenheim, Sol. State Comm. 111, 459 (1999).    (Si-C)\<newline>'' @
     ''    [SiO]   C. Koehler, Z. Hajnal, P. Deak, Th. Frauenheim, S. Suhai, Phys. Rev. B 64, 085333 (2001).   (Si-O)\<newline>'' @
     ''    [Silicon]   A. Sieck, Th. Frauenheim, and K. A. Jackson, phys. stat. sol. (b) 240, 537 (2003).      (Si)\<newline>'' @
     ''    [Fluorine]  C. Koehler and Th. Frauenheim, Surf. Sci. 600, 453 (2006).                              (F)\<newline>'' @
     ''    [Iron]  C. Koehler, G. Seifert and Th. Frauenheim, Chem. Phys. 309, 23 (2005).                      (Fe)\<newline>'' @
     ''    [SiSi] A. Sieck, PhD. Thesis, University of Paderborn, 2000.                                        (Si-Si)\<newline>''"

definition print_references :: "string \<Rightarrow> string" where
  "print_references out = print references_msg out"

text \<open>\<^verbatim>\<open>sep.join(xs)\<close>.\<close>

fun join :: "string \<Rightarrow> string list \<Rightarrow> string" where
  "join sep [] = []"
| "join sep [x] = x"
| "join sep (x # y # ys) = x @ sep @ join sep (y # ys)"

text \<open>
  The module's state after it has run: what it has printed and the dictionary
  \<^verbatim>\<open>parameter_sets\<close>, whose keys keep their insertion order.
\<close>

record 'a dftb_pars =
  stdout :: string
  parameter_sets :: "(string \<times> 'a) list"

text \<open>
  Importing the module runs its top level: line 47 prints the references and lines 67-70
  build \<^verbatim>\<open>parameter_sets\<close>. \<open>found\<close> lists the parameter directories that
  \<^verbatim>\<open>glob\<close> finds, each with its name and the arguments \<^verbatim>\<open>parse_params\<close> reads.
\<close>

definition import_dftb_pars :: "(string \<times> 'a) list \<Rightarrow> string \<Rightarrow> 'a dftb_pars" where
  "import_dftb_pars found out =
     \<lparr>stdout = print_references out, parameter_sets = found\<rparr>"

text \<open>
  \<^verbatim>\<open>DFTBArgs.list()\<close> (lines 117-120): prints the names and, having no
  \<^verbatim>\<open>return\<close>, returns \<^verbatim>\<open>None\<close> (the unit value).
\<close>

definition DFTBArgs_list :: "'a dftb_pars \<Rightarrow> unit \<times> 'a dftb_pars" where
  "DFTBArgs_list m = ((), m\<lparr>stdout := print (join '', '' (map fst (parameter_sets m))) (stdout m)\<rparr>)"

section \<open>Properties of the read path\<close>

lemma collect_to_avg_length:
  "collect_to_avg f as = Inr vs \<Longrightarrow> length vs = length as"
  by (induction as arbitrary: vs) (auto split: sum.splits)

lemma sum_list_map2_nth:
  "length ws = length vs \<Longrightarrow>
   sum_list (map2 f ws vs) = (\<Sum>i<length vs. f (ws ! i) (vs ! i))"
  by (simp add: sum_list_sum_nth atLeast0LessThan)

lemma report_vals_ok:
  "i + length vs \<le> length ws \<Longrightarrow>
   report_vals ws i vs = Inr (map (\<lambda>k. (i + k, ws ! (i + k), vs ! k)) [0..<length vs])"
proof (induction vs arbitrary: i)
  case Nil
  then show ?case by simp
next
  case (Cons v vs)
  have "map (\<lambda>k. (i + k, ws ! (i + k), (v # vs) ! k)) [0..<length (v # vs)] =
        (i, ws ! i, v) # map (\<lambda>k. (Suc i + k, ws ! (Suc i + k), vs ! k)) [0..<length vs]"
    by (simp add: upt_conv_Cons map_Suc_upt [symmetric] del: upt_Suc)
  with Cons show ?case by simp
qed

lemma report_vals_short:
  "i \<le> length ws \<Longrightarrow> length ws < i + length vs \<Longrightarrow> report_vals ws i vs = Inl IndexError"
  by (induction vs arbitrary: i) (auto split: sum.splits)

lemma weighted_average_ge:
  assumes "length to_avg = N" "N \<le> length ws"
  shows "weighted_average N ws to_avg = Inr (\<Sum>i<N. (ws ! i) *\<^sub>R (to_avg ! i))"
proof -
  have l: "length (take N ws) = length to_avg" using assms by simp
  have "sum_list (map2 (\<lambda>w v. w *\<^sub>R v) (take N ws) to_avg) =
        (\<Sum>i<length to_avg. (take N ws ! i) *\<^sub>R (to_avg ! i))"
    by (rule sum_list_map2_nth [OF l])
  also have "\<dots> = (\<Sum>i<N. (ws ! i) *\<^sub>R (to_avg ! i))"
    using assms by simp
  finally show ?thesis
    using l by (simp add: weighted_average_def broadcast_mul_def)
qed

lemma average_property_ok:
  assumes "collect_to_avg get coll = Inr to_avg"
      and "length coll \<le> length (weights (rw T s))"
  shows "average_property rw name T get coll s =
         Inr (rw T s,
              \<lparr>avgname = name,
               avg = (\<Sum>i<length coll. (weights (rw T s) ! i) *\<^sub>R (to_avg ! i)),
               vals = map (\<lambda>k. (k, weights (rw T s) ! k, to_avg ! k)) [0..<length coll]\<rparr>)"
proof -
  have len: "length to_avg = length coll"
    using assms(1) by (rule collect_to_avg_length)
  have r: "report_vals (weights (rw T s)) 0 to_avg =
           Inr (map (\<lambda>k. (0 + k, weights (rw T s) ! (0 + k), to_avg ! k)) [0..<length to_avg])"
    by (rule report_vals_ok) (use len assms(2) in simp)
  show ?thesis
    using assms(1) weighted_average_ge [OF len assms(2)] r len
    by (simp add: average_property_def Let_def)
qed

lemma average_property_short:
  assumes "collect_to_avg get coll = Inr to_avg"
      and "length (weights (rw T s)) < length coll"
  shows "average_property rw name T get coll s = Inl ValueError \<or>
         average_property rw name T get coll s = Inl IndexError"
proof -
  have len: "length to_avg = length coll"
    using assms(1) by (rule collect_to_avg_length)
  have r: "report_vals (weights (rw T s)) 0 to_avg = Inl IndexError"
    by (rule report_vals_short) (use len assms(2) in simp_all)
  have "weighted_average (length coll) (weights (rw T s)) to_avg = Inl ValueError \<or>
        (\<exists>a. weighted_average (length coll) (weights (rw T s)) to_avg = Inr a)"
    by (simp add: weighted_average_def broadcast_mul_def)
  then show ?thesis
    using assms(1) r by (auto simp: average_property_def Let_def)
qed

lemma collect_to_avg_fails:
  assumes "a \<in> set as" "f a = Inl e" "\<And>b e'. f b = Inl e' \<Longrightarrow> e' \<in> E"
  shows "\<exists>e'\<in>E. collect_to_avg f as = Inl e'"
  using assms(1,2)
proof (induction as)
  case Nil
  then show ?case by simp
next
  case (Cons b bs)
  show ?case
  proof (cases "f b")
    case (Inl e')
    then show ?thesis using assms(3) by auto
  next
    case (Inr v)
    with Cons have "\<exists>e'\<in>E. collect_to_avg f bs = Inl e'" by auto
    with Inr show ?thesis by auto
  qed
qed

lemma average_property_fails:
  assumes "collect_to_avg get coll = Inl e"
  shows "average_property rw name T get coll s = Inl e"
  using assms by (simp add: average_property_def)

lemma read_hyperfine:
  "muon_vibrational_average_read rw (Inr c) ''hyperfine'' T =
     (case average_property rw ''hyperfine tensor'' T (get_hyperfine (muon_index c))
             (structures c) (displacement_scheme c) of
        Inl e \<Rightarrow> Inl e
      | Inr (s, r) \<Rightarrow> Inr (s, Inl r))"
  by (simp add: muon_vibrational_average_read_def Let_def)

lemma read_charge:
  "muon_vibrational_average_read rw (Inr c) ''charge'' T =
     (case average_property rw ''charge'' T (get_charge (muon_index c))
             (structures c) (displacement_scheme c) of
        Inl e \<Rightarrow> Inl e
      | Inr (s, r) \<Rightarrow> Inr (s, Inr r))"
  by (simp add: muon_vibrational_average_read_def Let_def)

lemma get_hyperfine_errors: "get_hyperfine i a = Inl e \<Longrightarrow> e \<in> {KeyError, IndexError}"
  by (auto simp: get_hyperfine_def getitem_def split: option.splits)

lemma get_charge_errors:
  "get_charge i a = Inl e \<Longrightarrow> e \<in> {IOError ''Could not read charges.'', IndexError}"
  by (auto simp: get_charge_def getitem_def split: option.splits)



lemma collect_to_avg_iff:
  "collect_to_avg f as = Inr vs \<longleftrightarrow> map f as = map Inr vs"
proof (induction as arbitrary: vs)
  case Nil
  then show ?case by auto
next
  case (Cons a as)
  show ?case
  proof (cases "f a")
    case (Inl e)
    then show ?thesis by (cases vs) auto
  next
    case v: (Inr v)
    show ?thesis
    proof (cases "collect_to_avg f as")
      case (Inl e)
      with Cons have "map f as \<noteq> map Inr us" for us by simp
      with v Inl show ?thesis by (cases vs) auto
    next
      case (Inr us)
      with Cons.IH [of us] have "map f as = map Inr us" by simp
      with v Inr show ?thesis by (cases vs) auto
    qed
  qed
qed

lemma collect_to_avg_permuted:
  assumes "collect_to_avg f as = Inr vs" and "set p \<subseteq> {..<length as}"
  shows "collect_to_avg f (map (\<lambda>i. as ! i) p) = Inr (map (\<lambda>i. vs ! i) p)"
proof -
  have m: "map f as = map Inr vs"
    using assms(1) by (simp add: collect_to_avg_iff)
  have len: "length vs = length as"
    using assms(1) by (rule collect_to_avg_length)
  have "f (as ! i) = Inr (vs ! i)" if "i < length as" for i
    using nth_map [of i as f] nth_map [of i vs Inr] m len that by simp
  then have "map f (map (\<lambda>i. as ! i) p) = map Inr (map (\<lambda>i. vs ! i) p)"
    using assms(2) by auto
  then show ?thesis by (simp add: collect_to_avg_iff)
qed

lemma sum_permuted_indices:
  fixes g :: "nat \<Rightarrow> 'x::comm_monoid_add"
  assumes "mset p = mset [0..<N]"
  shows "(\<Sum>i<N. g (p ! i)) = (\<Sum>i<N. g i)"
proof -
  have len: "length p = N"
    using mset_eq_length [OF assms] by simp
  have "(\<Sum>i<N. g (p ! i)) = sum_list (map g p)"
    using len by (simp add: sum_list_sum_nth atLeast0LessThan)
  also have "\<dots> = sum_mset (image_mset g (mset p))"
    by (simp flip: sum_mset_sum_list)
  also have "\<dots> = sum_mset (image_mset g (mset [0..<N]))"
    by (simp only: assms)
  also have "\<dots> = sum_list (map g [0..<N])"
    by (simp flip: sum_mset_sum_list)
  also have "\<dots> = (\<Sum>i<N. g i)"
    by (simp add: interv_sum_list_conv_sum_set_nat atLeast0LessThan)
  finally show ?thesis .
qed

lemma average_property_Inr:
  assumes "average_property rw name T get coll s = Inr (t, r)"
  shows "\<exists>to_avg. collect_to_avg get coll = Inr to_avg"
  using assms by (cases "collect_to_avg get coll") (simp_all add: average_property_def)

lemma average_property_permuted:
  assumes p: "mset p = mset [0..<length coll]"
      and c': "coll' = map (\<lambda>i. coll ! i) p"
      and w': "weights (rw T s') = map (\<lambda>i. weights (rw T s) ! i) p"
      and lw: "length (weights (rw T s)) = length coll"
      and ok: "average_property rw name T get coll s = Inr (t, r)"
  shows "\<exists>t' r'. average_property rw name T get coll' s' = Inr (t', r') \<and> avg r' = avg r"
proof -
  from average_property_Inr [OF ok] obtain to_avg where
    col: "collect_to_avg get coll = Inr to_avg" ..
  have lp: "length p = length coll"
    using mset_eq_length [OF p] by simp
  have sp: "set p \<subseteq> {..<length coll}"
    using mset_eq_setD [OF p] by auto
  have col': "collect_to_avg get coll' = Inr (map (\<lambda>i. to_avg ! i) p)"
    unfolding c' by (rule collect_to_avg_permuted [OF col sp])
  have le: "length coll \<le> length (weights (rw T s))"
    using lw by simp
  have le': "length coll' \<le> length (weights (rw T s'))"
    using w' c' by simp
  have r: "avg r = (\<Sum>i<length coll. (weights (rw T s) ! i) *\<^sub>R (to_avg ! i))"
    using average_property_ok [where rw = rw and T = T and s = s and name = name, OF col le] ok
    by auto
  have "(\<Sum>i<length coll'. (weights (rw T s') ! i) *\<^sub>R (map (\<lambda>i. to_avg ! i) p ! i)) =
        (\<Sum>i<length coll. (weights (rw T s) ! (p ! i)) *\<^sub>R (to_avg ! (p ! i)))"
    using lp c' w' by simp
  also have "\<dots> = (\<Sum>i<length coll. (weights (rw T s) ! i) *\<^sub>R (to_avg ! i))"
    by (rule sum_permuted_indices [OF p])
  finally show ?thesis
    using average_property_ok [where rw = rw and T = T and s = s' and name = name, OF col' le'] r
    by simp
qed

lemma read_Inr_cases:
  assumes "muon_vibrational_average_read rw (Inr c) avgprop T = Inr (s, r)"
  shows "avgprop = ''hyperfine'' \<or> avgprop = ''charge''"
  using assms
  by (auto simp: muon_vibrational_average_read_def Let_def split: if_splits sum.splits)

text \<open>
  C5. The claim that the computed average does not depend on the order fails on the
  code's arithmetic. The weights \<open>1/2, 1/4, 1/4\<close> with the values \<open>2, 4e16, -4e16\<close> give
  the products \<open>1, 1e16, -1e16\<close>; added in this order in double precision, \<open>1 + 1e16\<close>
  rounds to \<open>1e16\<close> and the average is \<open>0\<close>. The same three pairs in the order
  \<open>(1/4, 4e16), (1/4, -4e16), (1/2, 2)\<close> give the average \<open>1\<close>.
\<close>

theorem read_average_permutation_invariant_counterexample:
  "map_option (map_sum id f64_val)
     (weighted_average_f64 3 [(1, - 1), (1, - 2), (1, - 2)]
        [(2, 0), (40000000000000000, 0), (- 40000000000000000, 0)]) = Some (Inr 0)
   \<and> map_option (map_sum id f64_val)
     (weighted_average_f64 3 [(1, - 2), (1, - 2), (1, - 1)]
        [(40000000000000000, 0), (- 40000000000000000, 0), (2, 0)]) = Some (Inr 1)"
  by (simp add: weighted_average_f64_def broadcast_mul_f64_def np_sum_f64_def f64_mul_def
      f64_add_def f64_round_def f64_val_def compute_bitlen Let_def)

lemma f64_add_commute: "f64_add x y = f64_add y x"
  by (cases x; cases y) (simp add: f64_add_def min.commute add.commute)

lemma weighted_average_f64_swap:
  "weighted_average_f64 2 [w1, w0] [v1, v0] = weighted_average_f64 2 [w0, w1] [v0, v1]"
  by (simp add: weighted_average_f64_def broadcast_mul_f64_def np_sum_f64_def f64_add_commute)

text \<open>
  C5, as the code has it. In exact arithmetic, permuting the configurations and the
  weights in the same way leaves the reported average unchanged: if the read succeeds on
  a collection whose scheme has one weight per configuration, it succeeds on every
  collection whose structures and weights are both rearranged by the same permutation
  \<open>p\<close> of the indices, with the same average. In double precision the average of two
  configurations is unchanged when they are swapped; for three or more the order can
  change the rounding, as the example above shows.
\<close>

theorem read_average_permutation_invariant:
  fixes c c' :: "('v::real_vector, 'd) collection"
  assumes "mset p = mset [0..<length (structures c)]"
      and "structures c' = map (\<lambda>i. structures c ! i) p"
      and "weights (rw T (displacement_scheme c')) =
           map (\<lambda>i. weights (rw T (displacement_scheme c)) ! i) p"
      and "length (weights (rw T (displacement_scheme c))) = length (structures c)"
      and "muon_index c' = muon_index c"
      and "muon_vibrational_average_read rw (Inr c) avgprop T = Inr (s, r)"
  shows "(\<exists>s' r'. muon_vibrational_average_read rw (Inr c') avgprop T = Inr (s', r') \<and>
                  map_sum avg avg r' = map_sum avg avg r)
       \<and> weighted_average_f64 2 [w1, w0] [v1, v0] = weighted_average_f64 2 [w0, w1] [v0, v1]"
proof
  show "weighted_average_f64 2 [w1, w0] [v1, v0] = weighted_average_f64 2 [w0, w1] [v0, v1]"
    by (rule weighted_average_f64_swap)
  from read_Inr_cases [OF assms(6)]
  show "\<exists>s' r'. muon_vibrational_average_read rw (Inr c') avgprop T = Inr (s', r') \<and>
               map_sum avg avg r' = map_sum avg avg r"
  proof
    assume a: "avgprop = ''hyperfine''"
    from assms(6) obtain t q where
      1: "average_property rw ''hyperfine tensor'' T (get_hyperfine (muon_index c))
            (structures c) (displacement_scheme c) = Inr (t, q)" and 2: "r = Inl q"
      unfolding a read_hyperfine by (auto split: sum.splits)
    from average_property_permuted [OF assms(1-4) 1] 2 show ?thesis
      unfolding a read_hyperfine assms(5) by auto
  next
    assume a: "avgprop = ''charge''"
    from assms(6) obtain t q where
      1: "average_property rw ''charge'' T (get_charge (muon_index c))
            (structures c) (displacement_scheme c) = Inr (t, q)" and 2: "r = Inr q"
      unfolding a read_charge by (auto split: sum.splits)
    from average_property_permuted [OF assms(1-4) 1] 2 show ?thesis
      unfolding a read_charge assms(5) by auto
  qed
qed

theorem read_average_permutation_invariant_witness:
  "\<exists>s' r'. muon_vibrational_average_read (\<lambda>T s. s)
            (Inr \<lparr>structures = [\<lparr>hyperfine = Some [4 :: real], charges = Some [3]\<rparr>,
                               \<lparr>hyperfine = Some [2], charges = Some [1]\<rparr>],
                  muon_index = 0,
                  displacement_scheme = \<lparr>displacements = [1 :: int, 0], weights = [3 / 4, 1 / 4]\<rparr>\<rparr>)
            ''charge'' 0 = Inr (s', r') \<and> map_sum avg avg r' = Inr (5 / 2)"
proof -
  let ?c = "\<lparr>structures = [\<lparr>hyperfine = Some [2 :: real], charges = Some [1]\<rparr>,
                           \<lparr>hyperfine = Some [4], charges = Some [3]\<rparr>],
              muon_index = 0,
              displacement_scheme = \<lparr>displacements = [0 :: int, 1], weights = [1 / 4, 3 / 4]\<rparr>\<rparr>"
  let ?c' = "\<lparr>structures = [\<lparr>hyperfine = Some [4 :: real], charges = Some [3]\<rparr>,
                           \<lparr>hyperfine = Some [2], charges = Some [1]\<rparr>],
               muon_index = 0,
               displacement_scheme = \<lparr>displacements = [1 :: int, 0], weights = [3 / 4, 1 / 4]\<rparr>\<rparr>"
  let ?r = "Inr \<lparr>avgname = ''charge'', avg = 5 / 2, vals = [(0, 1 / 4, 1), (1, 3 / 4, 3)]\<rparr>
              :: real report + real report"
  have 1: "mset [1, 0] = mset [0..<length (structures ?c)]"
    by (simp add: upt_rec)
  have 2: "structures ?c' = map (\<lambda>i. structures ?c ! i) [1, 0]"
    by simp
  have 3: "weights ((\<lambda>T s. s) (0 :: real) (displacement_scheme ?c')) =
           map (\<lambda>i. weights ((\<lambda>T s. s) (0 :: real) (displacement_scheme ?c)) ! i) [1, 0]"
    by simp
  have 4: "length (weights ((\<lambda>T s. s) (0 :: real) (displacement_scheme ?c))) = length (structures ?c)"
    by simp
  have 5: "muon_index ?c' = muon_index ?c"
    by simp
  have 6: "muon_vibrational_average_read (\<lambda>T s. s) (Inr ?c) ''charge'' 0 =
           Inr (displacement_scheme ?c, ?r)"
    by (simp add: read_charge average_property_def weighted_average_def broadcast_mul_def
        get_charge_def getitem_def py_index_def)
  from conjunct1 [OF read_average_permutation_invariant [OF 1 2 3 4 5 6]] show ?thesis
    by simp
qed

text \<open>
  C2. The claim that the reduction rejects sequences of different lengths and weights
  that do not add up to 1 fails on the code: with three values and four weights the
  fourth weight is dropped and an average is reported, and two weights that add up to
  \<open>3/2\<close> are used as they are.
\<close>

theorem read_checks_neither_length_nor_normalisation_counterexample:
  "muon_vibrational_average_read (\<lambda>T s. s)
     (Inr \<lparr>structures = [\<lparr>hyperfine = Some [1 :: real], charges = Some [2]\<rparr>,
                        \<lparr>hyperfine = Some [1], charges = Some [4]\<rparr>,
                        \<lparr>hyperfine = Some [1], charges = Some [6]\<rparr>],
           muon_index = 0,
           displacement_scheme =
             \<lparr>displacements = [0 :: int, 1, 2, 3], weights = [1 / 4, 1 / 4, 1 / 4, 1 / 4]\<rparr>\<rparr>)
     ''charge'' 0 =
   Inr (\<lparr>displacements = [0, 1, 2, 3], weights = [1 / 4, 1 / 4, 1 / 4, 1 / 4]\<rparr>,
        Inr \<lparr>avgname = ''charge'', avg = 3,
             vals = [(0, 1 / 4, 2), (1, 1 / 4, 4), (2, 1 / 4, 6)]\<rparr>)
   \<and> muon_vibrational_average_read (\<lambda>T s. s)
     (Inr \<lparr>structures = [\<lparr>hyperfine = Some [1 :: real], charges = Some [2]\<rparr>,
                        \<lparr>hyperfine = Some [1], charges = Some [4]\<rparr>],
           muon_index = 0,
           displacement_scheme =
             \<lparr>displacements = [0 :: int, 1], weights = [3 / 4, 3 / 4]\<rparr>\<rparr>)
     ''charge'' 0 =
   Inr (\<lparr>displacements = [0, 1], weights = [3 / 4, 3 / 4]\<rparr>,
        Inr \<lparr>avgname = ''charge'', avg = 9 / 2,
             vals = [(0, 3 / 4, 2), (1, 3 / 4, 4)]\<rparr>)"
  by (simp add: read_charge average_property_def weighted_average_def broadcast_mul_def
      get_charge_def getitem_def py_index_def)

text \<open>
  C2, as the code has it. The read path checks neither the number of weights nor their
  sum. Whenever the scheme has at least as many weights as there are configurations
  (\<open>N\<close>), whatever they add up to, the first \<open>N\<close> weights are used and the average
  \<open>\<Sum>i<N. weight\<^sub>i * value\<^sub>i\<close> is reported. Only when the scheme has fewer weights than
  there are configurations does the read fail, with numpy's \<open>ValueError\<close> (the shapes
  do not broadcast) or with the \<open>IndexError\<close> of the report's weight lookup.
\<close>

theorem read_checks_neither_length_nor_normalisation:
  fixes c :: "('v::real_vector, 'd) collection"
  assumes "ws = weights (rw T (displacement_scheme c))"
      and "N = length (structures c)"
  shows "(\<forall>hs. collect_to_avg (get_hyperfine (muon_index c)) (structures c) = Inr hs \<longrightarrow>
            (N \<le> length ws \<longrightarrow>
               (\<exists>s r. muon_vibrational_average_read rw (Inr c) ''hyperfine'' T = Inr (s, Inl r) \<and>
                      avg r = (\<Sum>i<N. (ws ! i) *\<^sub>R (hs ! i)))) \<and>
            (length ws < N \<longrightarrow>
               muon_vibrational_average_read rw (Inr c) ''hyperfine'' T = Inl ValueError \<or>
               muon_vibrational_average_read rw (Inr c) ''hyperfine'' T = Inl IndexError))
       \<and> (\<forall>cs. collect_to_avg (get_charge (muon_index c)) (structures c) = Inr cs \<longrightarrow>
            (N \<le> length ws \<longrightarrow>
               (\<exists>s r. muon_vibrational_average_read rw (Inr c) ''charge'' T = Inr (s, Inr r) \<and>
                      avg r = (\<Sum>i<N. (ws ! i) * (cs ! i)))) \<and>
            (length ws < N \<longrightarrow>
               muon_vibrational_average_read rw (Inr c) ''charge'' T = Inl ValueError \<or>
               muon_vibrational_average_read rw (Inr c) ''charge'' T = Inl IndexError))"
proof (intro conjI allI impI)
  fix hs :: "'v list"
  assume h: "collect_to_avg (get_hyperfine (muon_index c)) (structures c) = Inr hs"
  {
    assume "N \<le> length ws"
    then have le: "length (structures c) \<le> length (weights (rw T (displacement_scheme c)))"
      using assms by simp
    show "\<exists>s r. muon_vibrational_average_read rw (Inr c) ''hyperfine'' T = Inr (s, Inl r) \<and>
                avg r = (\<Sum>i<N. (ws ! i) *\<^sub>R (hs ! i))"
      using average_property_ok [where rw = rw and T = T and s = "displacement_scheme c", OF h le]
        assms
      by (simp add: read_hyperfine)
  next
    assume "length ws < N"
    then have lt: "length (weights (rw T (displacement_scheme c))) < length (structures c)"
      using assms by simp
    show "muon_vibrational_average_read rw (Inr c) ''hyperfine'' T = Inl ValueError \<or>
          muon_vibrational_average_read rw (Inr c) ''hyperfine'' T = Inl IndexError"
      using average_property_short
        [where rw = rw and T = T and s = "displacement_scheme c"
           and name = "''hyperfine tensor''", OF h lt]
      by (auto simp: read_hyperfine)
  }
next
  fix cs :: "real list"
  assume h: "collect_to_avg (get_charge (muon_index c)) (structures c) = Inr cs"
  {
    assume "N \<le> length ws"
    then have le: "length (structures c) \<le> length (weights (rw T (displacement_scheme c)))"
      using assms by simp
    show "\<exists>s r. muon_vibrational_average_read rw (Inr c) ''charge'' T = Inr (s, Inr r) \<and>
                avg r = (\<Sum>i<N. (ws ! i) * (cs ! i))"
      using average_property_ok [where rw = rw and T = T and s = "displacement_scheme c", OF h le]
        assms
      by (simp add: read_charge)
  next
    assume "length ws < N"
    then have lt: "length (weights (rw T (displacement_scheme c))) < length (structures c)"
      using assms by simp
    show "muon_vibrational_average_read rw (Inr c) ''charge'' T = Inl ValueError \<or>
          muon_vibrational_average_read rw (Inr c) ''charge'' T = Inl IndexError"
      using average_property_short
        [where rw = rw and T = T and s = "displacement_scheme c"
           and name = "''charge''", OF h lt]
      by (auto simp: read_charge)
  }
qed

theorem read_checks_neither_length_nor_normalisation_witness:
  "(\<exists>s r. muon_vibrational_average_read (\<lambda>T s. s)
            (Inr \<lparr>structures = [\<lparr>hyperfine = Some [1 :: real], charges = Some [2]\<rparr>,
                               \<lparr>hyperfine = Some [1], charges = Some [4]\<rparr>,
                               \<lparr>hyperfine = Some [1], charges = Some [6]\<rparr>],
                  muon_index = 0,
                  displacement_scheme =
                    \<lparr>displacements = [0 :: int, 1, 2, 3],
                     weights = [1 / 2, 1 / 2, 1 / 2, 1 / 4]\<rparr>\<rparr>)
            ''charge'' 0 = Inr (s, Inr r) \<and> avg r = 6)
   \<and> (muon_vibrational_average_read (\<lambda>T s. s)
            (Inr \<lparr>structures = [\<lparr>hyperfine = Some [1 :: real], charges = Some [2]\<rparr>,
                               \<lparr>hyperfine = Some [1], charges = Some [4]\<rparr>,
                               \<lparr>hyperfine = Some [1], charges = Some [6]\<rparr>],
                  muon_index = 0,
                  displacement_scheme =
                    \<lparr>displacements = [0 :: int, 1], weights = [1 / 2, 1 / 2]\<rparr>\<rparr>)
            ''charge'' 0 = Inl ValueError
      \<or> muon_vibrational_average_read (\<lambda>T s. s)
            (Inr \<lparr>structures = [\<lparr>hyperfine = Some [1 :: real], charges = Some [2]\<rparr>,
                               \<lparr>hyperfine = Some [1], charges = Some [4]\<rparr>,
                               \<lparr>hyperfine = Some [1], charges = Some [6]\<rparr>],
                  muon_index = 0,
                  displacement_scheme =
                    \<lparr>displacements = [0 :: int, 1], weights = [1 / 2, 1 / 2]\<rparr>\<rparr>)
            ''charge'' 0 = Inl IndexError)"
proof -
  let ?as = "[\<lparr>hyperfine = Some [1 :: real], charges = Some [2]\<rparr>,
              \<lparr>hyperfine = Some [1], charges = Some [4]\<rparr>,
              \<lparr>hyperfine = Some [1], charges = Some [6]\<rparr>]"
  let ?c = "\<lparr>structures = ?as, muon_index = 0,
              displacement_scheme =
                \<lparr>displacements = [0 :: int, 1, 2, 3],
                 weights = [1 / 2, 1 / 2, 1 / 2, 1 / 4]\<rparr>\<rparr>"
  let ?d = "\<lparr>structures = ?as, muon_index = 0,
              displacement_scheme =
                \<lparr>displacements = [0 :: int, 1], weights = [1 / 2, 1 / 2]\<rparr>\<rparr>"
  have kc: "collect_to_avg (get_charge (muon_index ?c)) (structures ?c) = Inr [2, 4, 6]"
    by (simp add: get_charge_def getitem_def py_index_def)
  have kd: "collect_to_avg (get_charge (muon_index ?d)) (structures ?d) = Inr [2, 4, 6]"
    by (simp add: get_charge_def getitem_def py_index_def)
  have sm: "(\<Sum>i<3. ([1 / 2, 1 / 2, 1 / 2, 1 / 4] ! i) * ([2, 4, 6 :: real] ! i)) = 6"
    by (simp add: lessThan_Suc numeral_3_eq_3)
  have "\<exists>s r. muon_vibrational_average_read (\<lambda>T s. s) (Inr ?c) ''charge'' 0 = Inr (s, Inr r) \<and>
              avg r = (\<Sum>i<3. ([1 / 2, 1 / 2, 1 / 2, 1 / 4] ! i) * ([2, 4, 6 :: real] ! i))"
    using read_checks_neither_length_nor_normalisation
      [of "[1 / 2, 1 / 2, 1 / 2, 1 / 4]" "\<lambda>T s. s" 0 ?c 3] kc
    by simp
  moreover have "muon_vibrational_average_read (\<lambda>T s. s) (Inr ?d) ''charge'' 0 = Inl ValueError \<or>
                 muon_vibrational_average_read (\<lambda>T s. s) (Inr ?d) ''charge'' 0 = Inl IndexError"
    using read_checks_neither_length_nor_normalisation
      [of "[1 / 2, 1 / 2]" "\<lambda>T s. s" 0 ?d 3] kd
    by simp
  ultimately show ?thesis
    unfolding sm by blast
qed

text \<open>
  C3. The claim that missing results are reported as an error naming the missing
  configurations fails on the code: when the scheme generated three configurations and
  only two structures are loaded, nothing is raised, and the reported average is the sum
  over the two loaded values with the first two weights.
\<close>

theorem read_incomplete_results_counterexample:
  "muon_vibrational_average_read (\<lambda>T s. s)
     (Inr \<lparr>structures = [\<lparr>hyperfine = Some [1 :: real], charges = Some [2]\<rparr>,
                        \<lparr>hyperfine = Some [1], charges = Some [4]\<rparr>],
           muon_index = 0,
           displacement_scheme =
             \<lparr>displacements = [0 :: int, 1, 2], weights = [1 / 4, 1 / 4, 1 / 2]\<rparr>\<rparr>)
     ''charge'' 0 =
   Inr (\<lparr>displacements = [0, 1, 2], weights = [1 / 4, 1 / 4, 1 / 2]\<rparr>,
        Inr \<lparr>avgname = ''charge'', avg = 3 / 2,
             vals = [(0, 1 / 4, 2), (1, 1 / 4, 4)]\<rparr>)"
  by (simp add: read_charge average_property_def weighted_average_def broadcast_mul_def
      get_charge_def getitem_def py_index_def)

text \<open>
  C3, as the code has it. The read path has no check for missing results. When fewer
  structures are loaded than the scheme generated configurations (and has weights), and
  every loaded structure has its value, no error is raised: the average is taken over
  the \<open>N\<close> loaded values with the first \<open>N\<close> weights. When a loaded structure has no
  value, the read fails and reports no average: with \<open>KeyError\<close> for a missing
  hyperfine array and with \<open>IOError\<close> for unreadable charges (or with the \<open>IndexError\<close>
  of an earlier structure whose array is too short for the muon index).
\<close>

theorem read_incomplete_results:
  fixes c :: "('v::real_vector, 'd) collection"
  assumes "ws = weights (rw T (displacement_scheme c))"
      and "N = length (structures c)"
      and "length ws = length (displacements (displacement_scheme c))"
  shows "(N < length (displacements (displacement_scheme c)) \<longrightarrow>
            (\<forall>hs. collect_to_avg (get_hyperfine (muon_index c)) (structures c) = Inr hs \<longrightarrow>
               (\<exists>s r. muon_vibrational_average_read rw (Inr c) ''hyperfine'' T = Inr (s, Inl r) \<and>
                      avg r = (\<Sum>i<N. (ws ! i) *\<^sub>R (hs ! i)))) \<and>
            (\<forall>cs. collect_to_avg (get_charge (muon_index c)) (structures c) = Inr cs \<longrightarrow>
               (\<exists>s r. muon_vibrational_average_read rw (Inr c) ''charge'' T = Inr (s, Inr r) \<and>
                      avg r = (\<Sum>i<N. (ws ! i) * (cs ! i)))))
       \<and> ((\<exists>a\<in>set (structures c). hyperfine a = None) \<longrightarrow>
            muon_vibrational_average_read rw (Inr c) ''hyperfine'' T = Inl KeyError \<or>
            muon_vibrational_average_read rw (Inr c) ''hyperfine'' T = Inl IndexError)
       \<and> ((\<exists>a\<in>set (structures c). charges a = None) \<longrightarrow>
            muon_vibrational_average_read rw (Inr c) ''charge'' T =
              Inl (IOError ''Could not read charges.'') \<or>
            muon_vibrational_average_read rw (Inr c) ''charge'' T = Inl IndexError)"
proof (intro conjI allI impI)
  fix hs :: "'v list"
  assume "N < length (displacements (displacement_scheme c))"
    and h: "collect_to_avg (get_hyperfine (muon_index c)) (structures c) = Inr hs"
  then have le: "length (structures c) \<le> length (weights (rw T (displacement_scheme c)))"
    using assms by simp
  show "\<exists>s r. muon_vibrational_average_read rw (Inr c) ''hyperfine'' T = Inr (s, Inl r) \<and>
              avg r = (\<Sum>i<N. (ws ! i) *\<^sub>R (hs ! i))"
    using average_property_ok [where rw = rw and T = T and s = "displacement_scheme c", OF h le]
      assms(1,2)
    by (simp add: read_hyperfine)
next
  fix cs :: "real list"
  assume "N < length (displacements (displacement_scheme c))"
    and h: "collect_to_avg (get_charge (muon_index c)) (structures c) = Inr cs"
  then have le: "length (structures c) \<le> length (weights (rw T (displacement_scheme c)))"
    using assms by simp
  show "\<exists>s r. muon_vibrational_average_read rw (Inr c) ''charge'' T = Inr (s, Inr r) \<and>
              avg r = (\<Sum>i<N. (ws ! i) * (cs ! i))"
    using average_property_ok [where rw = rw and T = T and s = "displacement_scheme c", OF h le]
      assms(1,2)
    by (simp add: read_charge)
next
  assume "\<exists>a\<in>set (structures c). hyperfine a = None"
  then obtain a where a: "a \<in> set (structures c)" "get_hyperfine (muon_index c) a = Inl KeyError"
    by (auto simp: get_hyperfine_def)
  from collect_to_avg_fails
    [where f = "get_hyperfine (muon_index c)" and E = "{KeyError, IndexError}", OF a]
    get_hyperfine_errors
  obtain e where "e \<in> {KeyError, IndexError}"
    "collect_to_avg (get_hyperfine (muon_index c)) (structures c) = Inl e"
    by blast
  then show "muon_vibrational_average_read rw (Inr c) ''hyperfine'' T = Inl KeyError \<or>
             muon_vibrational_average_read rw (Inr c) ''hyperfine'' T = Inl IndexError"
    by (auto simp: read_hyperfine average_property_fails)
next
  assume "\<exists>a\<in>set (structures c). charges a = None"
  then obtain a where a: "a \<in> set (structures c)"
    "get_charge (muon_index c) a = Inl (IOError ''Could not read charges.'')"
    by (auto simp: get_charge_def)
  from collect_to_avg_fails
    [where f = "get_charge (muon_index c)"
       and E = "{IOError ''Could not read charges.'', IndexError}", OF a]
    get_charge_errors
  obtain e where "e \<in> {IOError ''Could not read charges.'', IndexError}"
    "collect_to_avg (get_charge (muon_index c)) (structures c) = Inl e"
    by blast
  then show "muon_vibrational_average_read rw (Inr c) ''charge'' T =
               Inl (IOError ''Could not read charges.'') \<or>
             muon_vibrational_average_read rw (Inr c) ''charge'' T = Inl IndexError"
    by (auto simp: read_charge average_property_fails)
qed

theorem read_incomplete_results_witness:
  "(\<exists>s r. muon_vibrational_average_read (\<lambda>T s. s)
            (Inr \<lparr>structures = [\<lparr>hyperfine = Some [1 :: real], charges = Some [2]\<rparr>,
                               \<lparr>hyperfine = Some [1], charges = Some [4]\<rparr>],
                  muon_index = 0,
                  displacement_scheme =
                    \<lparr>displacements = [0 :: int, 1, 2], weights = [1 / 4, 1 / 4, 1 / 2]\<rparr>\<rparr>)
            ''charge'' 0 = Inr (s, Inr r) \<and> avg r = 3 / 2)
   \<and> (muon_vibrational_average_read (\<lambda>T s. s)
            (Inr \<lparr>structures = [\<lparr>hyperfine = Some [1 :: real], charges = Some [2]\<rparr>,
                               \<lparr>hyperfine = None, charges = Some [4]\<rparr>],
                  muon_index = 0,
                  displacement_scheme =
                    \<lparr>displacements = [0 :: int, 1], weights = [1 / 2, 1 / 2]\<rparr>\<rparr>)
            ''hyperfine'' 0 = Inl KeyError
      \<or> muon_vibrational_average_read (\<lambda>T s. s)
            (Inr \<lparr>structures = [\<lparr>hyperfine = Some [1 :: real], charges = Some [2]\<rparr>,
                               \<lparr>hyperfine = None, charges = Some [4]\<rparr>],
                  muon_index = 0,
                  displacement_scheme =
                    \<lparr>displacements = [0 :: int, 1], weights = [1 / 2, 1 / 2]\<rparr>\<rparr>)
            ''hyperfine'' 0 = Inl IndexError)"
proof -
  let ?c = "\<lparr>structures = [\<lparr>hyperfine = Some [1 :: real], charges = Some [2]\<rparr>,
                           \<lparr>hyperfine = Some [1], charges = Some [4]\<rparr>],
              muon_index = 0,
              displacement_scheme =
                \<lparr>displacements = [0 :: int, 1, 2], weights = [1 / 4, 1 / 4, 1 / 2]\<rparr>\<rparr>"
  let ?d = "\<lparr>structures = [\<lparr>hyperfine = Some [1 :: real], charges = Some [2]\<rparr>,
                           \<lparr>hyperfine = None, charges = Some [4]\<rparr>],
              muon_index = 0,
              displacement_scheme =
                \<lparr>displacements = [0 :: int, 1], weights = [1 / 2, 1 / 2]\<rparr>\<rparr>"
  have kc: "collect_to_avg (get_charge (muon_index ?c)) (structures ?c) = Inr [2, 4]"
    by (simp add: get_charge_def getitem_def py_index_def)
  have sm: "(\<Sum>i<2. ([1 / 4, 1 / 4, 1 / 2] ! i) * ([2, 4 :: real] ! i)) = 3 / 2"
    by (simp add: lessThan_Suc numeral_2_eq_2)
  have "\<exists>s r. muon_vibrational_average_read (\<lambda>T s. s) (Inr ?c) ''charge'' 0 = Inr (s, Inr r) \<and>
              avg r = (\<Sum>i<2. ([1 / 4, 1 / 4, 1 / 2] ! i) * ([2, 4 :: real] ! i))"
    using read_incomplete_results [of "[1 / 4, 1 / 4, 1 / 2]" "\<lambda>T s. s" 0 ?c 2] kc
    by simp
  moreover have "muon_vibrational_average_read (\<lambda>T s. s) (Inr ?d) ''hyperfine'' 0 = Inl KeyError \<or>
                 muon_vibrational_average_read (\<lambda>T s. s) (Inr ?d) ''hyperfine'' 0 = Inl IndexError"
    using read_incomplete_results [of "[1 / 2, 1 / 2]" "\<lambda>T s. s" 0 ?d 2]
    by simp
  ultimately show ?thesis
    unfolding sm by blast
qed

lemma read_scheme:
  assumes "muon_vibrational_average_read rw (Inr c) avgprop T = Inr (s, r)"
  shows "s = rw T (displacement_scheme c)"
  using assms
  by (auto simp: muon_vibrational_average_read_def average_property_def Let_def
      split: if_splits sum.splits)

text \<open>
  C7. \<^verbatim>\<open>recalc_weights(T)\<close> replaces the weights of a scheme and leaves its
  displacements as they are, at every temperature. The read path does nothing else to
  the scheme: the scheme it leaves behind is the loaded scheme after a single
  \<^verbatim>\<open>recalc_weights(T=average_T)\<close>, so its displacements are those that were loaded.
\<close>

theorem recalc_weights_keeps_displacements:
  "displacements (recalc_weights law T s) = displacements s \<and>
   weights (recalc_weights law T s) = law T s \<and>
   (\<forall>s' r. muon_vibrational_average_read (recalc_weights law) (Inr c) avgprop T = Inr (s', r) \<longrightarrow>
      s' = recalc_weights law T (displacement_scheme c) \<and>
      displacements s' = displacements (displacement_scheme c))"
proof (intro conjI allI impI)
  fix s' r
  assume "muon_vibrational_average_read (recalc_weights law) (Inr c) avgprop T = Inr (s', r)"
  then show s': "s' = recalc_weights law T (displacement_scheme c)"
    by (rule read_scheme)
  show "displacements s' = displacements (displacement_scheme c)"
    unfolding s' by (simp add: recalc_weights_def)
qed (simp_all add: recalc_weights_def)

theorem recalc_weights_keeps_displacements_witness:
  "\<exists>s' r. muon_vibrational_average_read (recalc_weights (\<lambda>T s. [1 / 4, 3 / 4]))
            (Inr \<lparr>structures = [\<lparr>hyperfine = Some [2 :: real], charges = Some [1]\<rparr>,
                               \<lparr>hyperfine = Some [4], charges = Some [3]\<rparr>],
                  muon_index = 0,
                  displacement_scheme = \<lparr>displacements = [5 :: int, 7], weights = []\<rparr>\<rparr>)
            ''charge'' 300 = Inr (s', r) \<and>
          displacements s' = [5, 7] \<and> weights s' = [1 / 4, 3 / 4]"
proof -
  let ?c = "\<lparr>structures = [\<lparr>hyperfine = Some [2 :: real], charges = Some [1]\<rparr>,
                           \<lparr>hyperfine = Some [4], charges = Some [3]\<rparr>],
              muon_index = 0,
              displacement_scheme = \<lparr>displacements = [5 :: int, 7], weights = []\<rparr>\<rparr>"
  let ?s = "\<lparr>displacements = [5 :: int, 7], weights = [1 / 4, 3 / 4]\<rparr>"
  let ?r = "Inr \<lparr>avgname = ''charge'', avg = 5 / 2, vals = [(0, 1 / 4, 1), (1, 3 / 4, 3)]\<rparr>
              :: real report + real report"
  have run: "muon_vibrational_average_read (recalc_weights (\<lambda>T s. [1 / 4, 3 / 4])) (Inr ?c)
               ''charge'' 300 = Inr (?s, ?r)"
    by (simp add: read_charge average_property_def weighted_average_def broadcast_mul_def
        get_charge_def getitem_def py_index_def recalc_weights_def)
  from recalc_weights_keeps_displacements
    [of "\<lambda>T s. [1 / 4, 3 / 4]" 300 "displacement_scheme ?c" ?c "''charge''"] run
  show ?thesis
    by simp
qed

lemma gamma_index_None:
  "gamma_index i qs = None \<longleftrightarrow> (\<forall>q\<in>set qs. \<not> is_gamma q)"
  by (induction qs arbitrary: i) auto

lemma gamma_index_first:
  assumes "k < length qs" "is_gamma (qs ! k)" "\<forall>j<k. \<not> is_gamma (qs ! j)"
  shows "gamma_index i qs = Some (i + k)"
  using assms
proof (induction qs arbitrary: i k)
  case Nil
  then show ?case by simp
next
  case (Cons q qs)
  show ?case
  proof (cases k)
    case 0
    with Cons.prems show ?thesis by simp
  next
    case (Suc k')
    from Cons.prems(3) Suc have nq: "\<not> is_gamma q" by auto
    have "\<forall>j<k'. \<not> is_gamma (qs ! j)"
      using Cons.prems(3) Suc by auto
    with Cons.IH [of k' "Suc i"] Cons.prems(1,2) Suc
    have "gamma_index (Suc i) qs = Some (Suc i + k')" by simp
    with nq Suc show ?thesis by simp
  qed
qed

lemma getitem_nat: "k < length xs \<Longrightarrow> getitem xs (int k) = Inr (xs ! k)"
  by (simp add: getitem_def py_index_def)

text \<open>
  C4. The claim speaks of entries equal to the zero wavevector; the code tests closeness.
  A data set whose only wavevector is \<open>(1e-9, 0, 0)\<close> has no zero entry, yet its modes
  are returned; and when that wavevector precedes a true zero wavevector, the modes
  returned are those of the former, not of the first zero entry.
\<close>

theorem read_castep_gamma_phonons_counterexample:
  "read_castep_gamma_phonons
     (Inr \<lparr>qpts = [(1 / 10 ^ 9, 0, 0)], frequencies = [[7 :: real]],
           eigenvectors = [[1 :: real]]\<rparr>) = Inr ([7], [1])
   \<and> read_castep_gamma_phonons
     (Inr \<lparr>qpts = [(1 / 10 ^ 9, 0, 0), (0, 0, 0)], frequencies = [[7 :: real], [8]],
           eigenvectors = [[1 :: real], [2]]\<rparr>) = Inr ([7], [1])"
  by (simp add: read_castep_gamma_phonons_def is_gamma_def isclose_def getitem_def py_index_def)

text \<open>
  C4, as the code has it. A wavevector counts as the gamma point when each of its
  components is within \<open>1e-8\<close> of zero (\<^verbatim>\<open>np.isclose\<close>); the zero wavevector does.
  When no wavevector of the data set is that close to zero, the request fails with
  \<open>MuonAverageError\<close>; otherwise the eigenvalues and eigenvectors at the first such
  wavevector are returned.
\<close>

theorem read_castep_gamma_phonons_spec:
  fixes pd :: "('e, 'v) QpointPhononModes"
  shows "is_gamma (0, 0, 0)
       \<and> is_gamma (x, y, z) = (\<bar>x\<bar> \<le> 1 / 10 ^ 8 \<and> \<bar>y\<bar> \<le> 1 / 10 ^ 8 \<and> \<bar>z\<bar> \<le> 1 / 10 ^ 8)
       \<and> ((\<forall>q\<in>set (qpts pd). \<not> is_gamma q) \<longrightarrow>
            read_castep_gamma_phonons (Inr pd) = Inl MuonAverageError)
       \<and> (\<forall>k. k < length (qpts pd) \<and> is_gamma (qpts pd ! k) \<and>
               (\<forall>j<k. \<not> is_gamma (qpts pd ! j)) \<and>
               length (frequencies pd) = length (qpts pd) \<and>
               length (eigenvectors pd) = length (qpts pd) \<longrightarrow>
            read_castep_gamma_phonons (Inr pd) = Inr (frequencies pd ! k, eigenvectors pd ! k))"
proof (intro conjI allI impI)
  show "is_gamma (0, 0, 0)"
    by (simp add: is_gamma_def isclose_def)
  show "is_gamma (x, y, z) = (\<bar>x\<bar> \<le> 1 / 10 ^ 8 \<and> \<bar>y\<bar> \<le> 1 / 10 ^ 8 \<and> \<bar>z\<bar> \<le> 1 / 10 ^ 8)"
    by (simp add: is_gamma_def isclose_def)
next
  assume "\<forall>q\<in>set (qpts pd). \<not> is_gamma q"
  then have "gamma_index 0 (qpts pd) = None"
    by (simp add: gamma_index_None)
  then show "read_castep_gamma_phonons (Inr pd) = Inl MuonAverageError"
    by (simp add: read_castep_gamma_phonons_def)
next
  fix k
  assume a: "k < length (qpts pd) \<and> is_gamma (qpts pd ! k) \<and>
             (\<forall>j<k. \<not> is_gamma (qpts pd ! j)) \<and>
             length (frequencies pd) = length (qpts pd) \<and>
             length (eigenvectors pd) = length (qpts pd)"
  then have "gamma_index 0 (qpts pd) = Some (0 + k)"
    by (intro gamma_index_first) auto
  then show "read_castep_gamma_phonons (Inr pd) = Inr (frequencies pd ! k, eigenvectors pd ! k)"
    using a by (simp add: read_castep_gamma_phonons_def getitem_nat)
qed

theorem read_castep_gamma_phonons_spec_witness:
  "read_castep_gamma_phonons
     (Inr \<lparr>qpts = [(1 / 2, 0, 0), (0, 1 / 2, 0)], frequencies = [[7 :: real], [8]],
           eigenvectors = [[1 :: real], [2]]\<rparr>) = Inl MuonAverageError
   \<and> read_castep_gamma_phonons
     (Inr \<lparr>qpts = [(1 / 2, 0, 0), (0, 0, 0), (0, 0, 0)], frequencies = [[7 :: real], [8], [9]],
           eigenvectors = [[1 :: real], [2], [3]]\<rparr>) = Inr ([8], [2])"
proof -
  let ?p = "\<lparr>qpts = [(1 / 2, 0, 0), (0, 1 / 2, 0)], frequencies = [[7 :: real], [8]],
              eigenvectors = [[1 :: real], [2]]\<rparr>"
  let ?q = "\<lparr>qpts = [(1 / 2, 0, 0), (0, 0, 0), (0, 0, 0)], frequencies = [[7 :: real], [8], [9]],
              eigenvectors = [[1 :: real], [2], [3]]\<rparr>"
  have 1: "\<forall>q\<in>set (qpts ?p). \<not> is_gamma q"
    by (simp add: is_gamma_def isclose_def)
  have 2: "1 < length (qpts ?q) \<and> is_gamma (qpts ?q ! 1) \<and>
           (\<forall>j<1. \<not> is_gamma (qpts ?q ! j)) \<and>
           length (frequencies ?q) = length (qpts ?q) \<and>
           length (eigenvectors ?q) = length (qpts ?q)"
    by (simp add: is_gamma_def isclose_def)
  from read_castep_gamma_phonons_spec [of 0 0 0 ?p] 1
  have "read_castep_gamma_phonons (Inr ?p) = Inl MuonAverageError"
    by blast
  moreover from read_castep_gamma_phonons_spec [of 0 0 0 ?q] 2
  have "read_castep_gamma_phonons (Inr ?q) = Inr (frequencies ?q ! 1, eigenvectors ?q ! 1)"
    by blast
  ultimately show ?thesis
    by simp
qed

lemma py_index_bound: "py_index n i = Some k \<Longrightarrow> k < n"
  by (auto simp: py_index_def split: if_splits)

lemma py_index_nat: "k < n \<Longrightarrow> py_index n (int k) = Some k"
  by (simp add: py_index_def)

lemma where_eq_bound: "i \<in> set (where_eq species mu_symbol) \<Longrightarrow> i < length species"
  by (simp add: where_eq_def)

lemma np_str_idem: "np_str (np_str s) = np_str s"
  by (simp add: np_str_def)

lemma where_eq_trailing_nul: "where_eq [''Si'', ''H''] [CHR ''H'', CHR 0x00] = [1]"
  by (simp add: where_eq_def np_str_def)

text \<open>
  C6. Whenever \<^verbatim>\<open>muon_vibrational_average_write\<close> constructs a displacement scheme,
  with either constructor, the mass array it passes has the muon mass at the muon's
  index (and the input masses everywhere else), and the displacements are those the
  scheme built from that very constructor call generates.
\<close>

theorem write_masses_overridden_before_scheme:
  assumes "muon_vibrational_average_write m_mu_amu displ cell ph phpath phfile
             phonon_source_type method mu_index mu_symbol grid_n sigma_n displace_T = Inr out"
      and "masses = (case castep_masses cell of Some m \<Rightarrow> m | None \<Rightarrow> ase_masses cell)"
  shows "\<exists>k. py_index (length masses) (info_muon_index out) = Some k \<and>
             call_masses (info_displacement_scheme out) = masses[k := m_mu_amu] \<and>
             call_masses (info_displacement_scheme out) ! k = m_mu_amu \<and>
             displaced_positions out =
               map (\<lambda>d. positions cell + d)
                 (displ (info_displacement_scheme out) grid_n displace_T)"
proof -
  let ?species = "map np_str (case castep_custom_species cell of Some s \<Rightarrow> s
                              | None \<Rightarrow> chemical_symbols cell)"
  from assms(1) obtain i species' where
    fm: "find_muon ?species mu_symbol mu_index = Inr (i, species')"
    by (auto simp: muon_vibrational_average_write_def Let_def split: sum.splits)
  from assms(1) fm obtain ev ec where
    lp: "load_phonons ph phpath phfile phonon_source_type = Inr (ev, ec)"
    by (auto simp: muon_vibrational_average_write_def Let_def split: sum.splits)
  from assms(1) fm lp obtain k where
    k: "py_index (length masses) i = Some k"
    unfolding assms(2)
    by (auto simp: muon_vibrational_average_write_def Let_def split: option.splits)
  have kb: "k < length masses"
    using k by (rule py_index_bound)
  from assms(1) fm lp k have
    "info_muon_index out = i \<and>
     call_masses (info_displacement_scheme out) = masses[k := m_mu_amu] \<and>
     displaced_positions out =
       map (\<lambda>d. positions cell + d) (displ (info_displacement_scheme out) grid_n displace_T)"
    unfolding assms(2)
    by (auto simp: muon_vibrational_average_write_def Let_def split: if_splits)
  with k kb show ?thesis by simp
qed

theorem write_masses_overridden_before_scheme_witness:
  "\<exists>k. py_index (length [28, 1 :: real]) (- 1) = Some k \<and>
       call_masses (IndependentDisplacements [1 :: real] [2 :: real] [28, 113 / 1000] (- 1) 3) =
         [28, 1][k := 113 / 1000] \<and>
       call_masses (IndependentDisplacements [1 :: real] [2 :: real] [28, 113 / 1000] (- 1) 3) ! k =
         113 / 1000"
proof -
  let ?cell = "\<lparr>castep_custom_species = None, chemical_symbols = [''Si'', ''H''],
                 castep_masses = None, ase_masses = [28, 1], positions = 10 :: real\<rparr>"
  let ?call = "IndependentDisplacements [1 :: real] [2 :: real] [28, 113 / 1000] (- 1) 3"
  let ?out = "\<lparr>cell_species = [''Si'', ''H:mu''], cell_masses = [28, 113 / 1000],
                displaced_positions = [11, 12 :: real],
                info_displacement_scheme = ?call, info_muon_index = - 1\<rparr>"
  have run: "muon_vibrational_average_write (113 / 1000) (\<lambda>call n T. [1, 2]) ?cell
               (ReadPhonons [1] [2]) ''.'' ''Si'' ''castep'' ''independent'' (- 1) ''H:mu''
               20 3 0 = Inr ?out"
    by (simp add: muon_vibrational_average_write_def find_muon_def where_eq_def np_str_def
        load_phonons_def py_index_def Let_def)
  have m: "[28, 1 :: real] =
           (case castep_masses ?cell of Some m \<Rightarrow> m | None \<Rightarrow> ase_masses ?cell)"
    by simp
  from write_masses_overridden_before_scheme [OF run m] show ?thesis
    by simp
qed

lemma write_find_muon_error:
  assumes "find_muon (map np_str (case castep_custom_species cell of Some s \<Rightarrow> s
                                  | None \<Rightarrow> chemical_symbols cell)) mu_symbol mu_index = Inl e"
  shows "muon_vibrational_average_write m_mu_amu displ cell ph phpath phfile
           phonon_source_type method mu_index mu_symbol grid_n sigma_n displace_T = Inl e"
  using assms by (simp add: muon_vibrational_average_write_def Let_def)

lemma write_find_muon_same:
  assumes "find_muon (map np_str (case castep_custom_species cell of Some s \<Rightarrow> s
                                  | None \<Rightarrow> chemical_symbols cell)) mu_symbol i =
           find_muon (map np_str (case castep_custom_species cell of Some s \<Rightarrow> s
                                  | None \<Rightarrow> chemical_symbols cell)) mu_symbol j"
  shows "muon_vibrational_average_write m_mu_amu displ cell ph phpath phfile
           phonon_source_type method i mu_symbol grid_n sigma_n displace_T =
         muon_vibrational_average_write m_mu_amu displ cell ph phpath phfile
           phonon_source_type method j mu_symbol grid_n sigma_n displace_T"
  using assms by (simp add: muon_vibrational_average_write_def Let_def)

lemma write_find_muon_success:
  assumes "find_muon (map np_str (case castep_custom_species cell of Some s \<Rightarrow> s
                                  | None \<Rightarrow> chemical_symbols cell)) mu_symbol mu_index =
           Inr (i, species')"
      and "masses = (case castep_masses cell of Some m \<Rightarrow> m | None \<Rightarrow> ase_masses cell)"
      and "py_index (length masses) i = Some k"
      and "method = ''independent'' \<or> method = ''montecarlo''"
      and "call = (if method = ''independent''
                   then IndependentDisplacements ev ec (masses[k := m_mu_amu]) i sigma_n
                   else MonteCarloDisplacements ev ec (masses[k := m_mu_amu]))"
  shows "muon_vibrational_average_write m_mu_amu displ cell (ReadPhonons ev ec) phpath phfile
           phonon_source_type method mu_index mu_symbol grid_n sigma_n displace_T =
         Inr \<lparr>cell_species = species',
              cell_masses = masses[k := m_mu_amu],
              displaced_positions = map (\<lambda>d. positions cell + d) (displ call grid_n displace_T),
              info_displacement_scheme = call,
              info_muon_index = i\<rparr>"
  using assms(1,3,4) unfolding assms(2,5)
  by (auto simp: muon_vibrational_average_write_def load_phonons_def Let_def)

text \<open>
  C10. Let \<open>species\<close> be the species labels of the input structure, as numpy holds them,
  and \<open>masses\<close> its masses. If more than one atom carries \<open>mu_symbol\<close>,
  \<^verbatim>\<open>muon_vibrational_average_write\<close> fails with \<open>MuonAverageError\<close>, whatever its other
  arguments are, so no scheme is constructed. If exactly one atom \<open>i\<close> carries it, the
  result does not depend on the \<open>mu_index\<close> argument, and once the phonons are read the
  call succeeds with atom \<open>i\<close> as the muon: its mass is the muon mass, the scheme is
  built for index \<open>i\<close>, \<open>i\<close> is the muon index that is stored, and the labels stay as
  they are. If no atom carries it, a \<open>mu_index\<close> that names no atom fails with
  \<open>IndexError\<close>; otherwise, once the phonons are read, the call succeeds with the atom at
  \<open>mu_index\<close> (counted from the end when negative) relabelled with \<open>mu_symbol\<close>, and
  \<open>mu_index\<close> is the muon index that is used and stored. Here \<open>call ms i\<close> is the
  constructor call that the \<^verbatim>\<open>method\<close> argument \<open>meth\<close> selects.
\<close>

theorem write_muon_lookup:
  assumes "species = map np_str (case castep_custom_species cell of Some s \<Rightarrow> s
                                 | None \<Rightarrow> chemical_symbols cell)"
      and "masses = (case castep_masses cell of Some m \<Rightarrow> m | None \<Rightarrow> ase_masses cell)"
      and "call = (\<lambda>ms i. if meth = ''independent''
                          then IndependentDisplacements ev ec ms i sigma_n
                          else MonteCarloDisplacements ev ec ms)"
  shows "(1 < length (where_eq species mu_symbol) \<longrightarrow>
            muon_vibrational_average_write m_mu_amu displ cell ph phpath phfile
              phonon_source_type meth mu_index mu_symbol grid_n sigma_n displace_T =
            Inl MuonAverageError)
       \<and> (\<forall>i. where_eq species mu_symbol = [i] \<longrightarrow>
            (\<forall>j. muon_vibrational_average_write m_mu_amu displ cell ph phpath phfile
                    phonon_source_type meth j mu_symbol grid_n sigma_n displace_T =
                  muon_vibrational_average_write m_mu_amu displ cell ph phpath phfile
                    phonon_source_type meth mu_index mu_symbol grid_n sigma_n displace_T) \<and>
            (i < length masses \<and> (meth = ''independent'' \<or> meth = ''montecarlo'') \<longrightarrow>
               muon_vibrational_average_write m_mu_amu displ cell (ReadPhonons ev ec) phpath
                 phfile phonon_source_type meth mu_index mu_symbol grid_n sigma_n displace_T =
               Inr \<lparr>cell_species = species,
                    cell_masses = masses[i := m_mu_amu],
                    displaced_positions =
                      map (\<lambda>d. positions cell + d)
                        (displ (call (masses[i := m_mu_amu]) (int i)) grid_n displace_T),
                    info_displacement_scheme = call (masses[i := m_mu_amu]) (int i),
                    info_muon_index = int i\<rparr>))
       \<and> (where_eq species mu_symbol = [] \<longrightarrow>
            (case py_index (length species) mu_index of
               None \<Rightarrow>
                 muon_vibrational_average_write m_mu_amu displ cell ph phpath phfile
                   phonon_source_type meth mu_index mu_symbol grid_n sigma_n displace_T =
                 Inl IndexError
             | Some k \<Rightarrow>
                 (\<forall>k'. py_index (length masses) mu_index = Some k' \<and>
                       (meth = ''independent'' \<or> meth = ''montecarlo'') \<longrightarrow>
                    muon_vibrational_average_write m_mu_amu displ cell (ReadPhonons ev ec)
                      phpath phfile phonon_source_type meth mu_index mu_symbol grid_n sigma_n
                      displace_T =
                    Inr \<lparr>cell_species = species[k := np_str mu_symbol],
                         cell_masses = masses[k' := m_mu_amu],
                         displaced_positions =
                           map (\<lambda>d. positions cell + d)
                             (displ (call (masses[k' := m_mu_amu]) mu_index) grid_n displace_T),
                         info_displacement_scheme = call (masses[k' := m_mu_amu]) mu_index,
                         info_muon_index = mu_index\<rparr>)))"
proof (intro conjI allI impI)
  assume "1 < length (where_eq species mu_symbol)"
  then have "find_muon species mu_symbol mu_index = Inl MuonAverageError"
    by (simp add: find_muon_def Let_def)
  then show "muon_vibrational_average_write m_mu_amu displ cell ph phpath phfile
               phonon_source_type meth mu_index mu_symbol grid_n sigma_n displace_T =
             Inl MuonAverageError"
    unfolding assms(1) by (rule write_find_muon_error)
next
  fix i j
  assume one: "where_eq species mu_symbol = [i]"
  then have "find_muon species mu_symbol j = find_muon species mu_symbol mu_index"
    by (simp add: find_muon_def Let_def)
  then show "muon_vibrational_average_write m_mu_amu displ cell ph phpath phfile
               phonon_source_type meth j mu_symbol grid_n sigma_n displace_T =
             muon_vibrational_average_write m_mu_amu displ cell ph phpath phfile
               phonon_source_type meth mu_index mu_symbol grid_n sigma_n displace_T"
    unfolding assms(1) by (rule write_find_muon_same)
next
  fix i
  assume one: "where_eq species mu_symbol = [i]"
    and ok: "i < length masses \<and> (meth = ''independent'' \<or> meth = ''montecarlo'')"
  from one have fm: "find_muon species mu_symbol mu_index = Inr (int i, species)"
    by (simp add: find_muon_def Let_def)
  have k: "py_index (length masses) (int i) = Some i"
    using ok by (simp add: py_index_nat)
  have c: "call (masses[i := m_mu_amu]) (int i) =
           (if meth = ''independent''
            then IndependentDisplacements ev ec (masses[i := m_mu_amu]) (int i) sigma_n
            else MonteCarloDisplacements ev ec (masses[i := m_mu_amu]))"
    by (simp add: assms(3))
  from ok have m: "meth = ''independent'' \<or> meth = ''montecarlo''" ..
  show "muon_vibrational_average_write m_mu_amu displ cell (ReadPhonons ev ec) phpath
          phfile phonon_source_type meth mu_index mu_symbol grid_n sigma_n displace_T =
        Inr \<lparr>cell_species = species,
             cell_masses = masses[i := m_mu_amu],
             displaced_positions =
               map (\<lambda>d. positions cell + d)
                 (displ (call (masses[i := m_mu_amu]) (int i)) grid_n displace_T),
             info_displacement_scheme = call (masses[i := m_mu_amu]) (int i),
             info_muon_index = int i\<rparr>"
    using write_find_muon_success [OF fm [unfolded assms(1)] assms(2) k m c]
    by (simp add: assms(1))
next
  assume none: "where_eq species mu_symbol = []"
  show "case py_index (length species) mu_index of
          None \<Rightarrow>
            muon_vibrational_average_write m_mu_amu displ cell ph phpath phfile
              phonon_source_type meth mu_index mu_symbol grid_n sigma_n displace_T =
            Inl IndexError
        | Some k \<Rightarrow>
            (\<forall>k'. py_index (length masses) mu_index = Some k' \<and>
                  (meth = ''independent'' \<or> meth = ''montecarlo'') \<longrightarrow>
               muon_vibrational_average_write m_mu_amu displ cell (ReadPhonons ev ec)
                 phpath phfile phonon_source_type meth mu_index mu_symbol grid_n sigma_n
                 displace_T =
               Inr \<lparr>cell_species = species[k := np_str mu_symbol],
                    cell_masses = masses[k' := m_mu_amu],
                    displaced_positions =
                      map (\<lambda>d. positions cell + d)
                        (displ (call (masses[k' := m_mu_amu]) mu_index) grid_n displace_T),
                    info_displacement_scheme = call (masses[k' := m_mu_amu]) mu_index,
                    info_muon_index = mu_index\<rparr>)"
  proof (cases "py_index (length species) mu_index")
    case None
    with none have "find_muon species mu_symbol mu_index = Inl IndexError"
      by (simp add: find_muon_def Let_def)
    from write_find_muon_error [OF this [unfolded assms(1)]] None show ?thesis
      by simp
  next
    case (Some k)
    have "map np_str (species[k := mu_symbol]) = species[k := np_str mu_symbol]"
      unfolding assms(1) by (simp add: map_update np_str_idem comp_def)
    with none Some have fm: "find_muon species mu_symbol mu_index =
                             Inr (mu_index, species[k := np_str mu_symbol])"
      by (simp add: find_muon_def Let_def)
    have "muon_vibrational_average_write m_mu_amu displ cell (ReadPhonons ev ec)
            phpath phfile phonon_source_type meth mu_index mu_symbol grid_n sigma_n
            displace_T =
          Inr \<lparr>cell_species = species[k := np_str mu_symbol],
               cell_masses = masses[k' := m_mu_amu],
               displaced_positions =
                 map (\<lambda>d. positions cell + d)
                   (displ (call (masses[k' := m_mu_amu]) mu_index) grid_n displace_T),
               info_displacement_scheme = call (masses[k' := m_mu_amu]) mu_index,
               info_muon_index = mu_index\<rparr>"
      if k': "py_index (length masses) mu_index = Some k'"
        and m: "meth = ''independent'' \<or> meth = ''montecarlo''" for k'
    proof -
      have c: "call (masses[k' := m_mu_amu]) mu_index =
               (if meth = ''independent''
                then IndependentDisplacements ev ec (masses[k' := m_mu_amu]) mu_index sigma_n
                else MonteCarloDisplacements ev ec (masses[k' := m_mu_amu]))"
        by (simp add: assms(3))
      show ?thesis
        using write_find_muon_success [OF fm [unfolded assms(1)] assms(2) k' m c]
        by (simp add: assms(1))
    qed
    with Some show ?thesis
      by simp
  qed
qed

theorem write_muon_lookup_witness:
  "muon_vibrational_average_write (113 / 1000) (\<lambda>call n T. [1, 2])
     \<lparr>castep_custom_species = Some [''H:mu'', ''Si'', ''H:mu''],
      chemical_symbols = [''H'', ''Si'', ''H''],
      castep_masses = None, ase_masses = [1, 28, 1], positions = 10 :: real\<rparr>
     (ReadPhonons [1 :: real] [2 :: real]) ''.'' ''Si'' ''castep'' ''independent'' 0 ''H:mu'' 20 3 0 =
   Inl MuonAverageError
   \<and> muon_vibrational_average_write (113 / 1000) (\<lambda>call n T. [1, 2])
     \<lparr>castep_custom_species = Some [''Si'', ''H:mu''], chemical_symbols = [''Si'', ''H''],
      castep_masses = None, ase_masses = [28, 1], positions = 10 :: real\<rparr>
     (ReadPhonons [1 :: real] [2 :: real]) ''.'' ''Si'' ''castep'' ''montecarlo'' 0 ''H:mu'' 20 3 0 =
   Inr \<lparr>cell_species = [''Si'', ''H:mu''], cell_masses = [28, 113 / 1000],
        displaced_positions = [11, 12],
        info_displacement_scheme = MonteCarloDisplacements [1] [2] [28, 113 / 1000],
        info_muon_index = 1\<rparr>
   \<and> muon_vibrational_average_write (113 / 1000) (\<lambda>call n T. [1, 2])
     \<lparr>castep_custom_species = None, chemical_symbols = [''Si'', ''H''],
      castep_masses = None, ase_masses = [28, 1], positions = 10 :: real\<rparr>
     (ReadPhonons [1 :: real] [2 :: real]) ''.'' ''Si'' ''castep'' ''independent'' (- 1) ''H:mu''
     20 3 0 =
   Inr \<lparr>cell_species = [''Si'', ''H:mu''], cell_masses = [28, 113 / 1000],
        displaced_positions = [11, 12],
        info_displacement_scheme = IndependentDisplacements [1] [2] [28, 113 / 1000] (- 1) 3,
        info_muon_index = - 1\<rparr>"
proof -
  let ?two = "\<lparr>castep_custom_species = Some [''H:mu'', ''Si'', ''H:mu''],
                chemical_symbols = [''H'', ''Si'', ''H''],
                castep_masses = None, ase_masses = [1, 28, 1], positions = 10 :: real\<rparr>"
  let ?one = "\<lparr>castep_custom_species = Some [''Si'', ''H:mu''], chemical_symbols = [''Si'', ''H''],
                castep_masses = None, ase_masses = [28, 1], positions = 10 :: real\<rparr>"
  let ?none = "\<lparr>castep_custom_species = None, chemical_symbols = [''Si'', ''H''],
                 castep_masses = None, ase_masses = [28, 1], positions = 10 :: real\<rparr>"
  let ?displ = "\<lambda>(call :: (real list, real list) scheme_call) (n :: int) (T :: real). [1, 2 :: real]"
  let ?ph = "ReadPhonons [1 :: real] [2 :: real] :: (real list, real list) phonon_read"
  have s2: "[''H:mu'', ''Si'', ''H:mu''] =
            map np_str (case castep_custom_species ?two of Some s \<Rightarrow> s
                        | None \<Rightarrow> chemical_symbols ?two)"
    by (simp add: np_str_def)
  have s1: "[''Si'', ''H:mu''] =
            map np_str (case castep_custom_species ?one of Some s \<Rightarrow> s
                        | None \<Rightarrow> chemical_symbols ?one)"
    by (simp add: np_str_def)
  have s0: "[''Si'', ''H''] =
            map np_str (case castep_custom_species ?none of Some s \<Rightarrow> s
                        | None \<Rightarrow> chemical_symbols ?none)"
    by (simp add: np_str_def)
  have m2: "[1, 28, 1 :: real] =
            (case castep_masses ?two of Some m \<Rightarrow> m | None \<Rightarrow> ase_masses ?two)"
    by simp
  have m1: "[28, 1 :: real] =
            (case castep_masses ?one of Some m \<Rightarrow> m | None \<Rightarrow> ase_masses ?one)"
    by simp
  have m0: "[28, 1 :: real] =
            (case castep_masses ?none of Some m \<Rightarrow> m | None \<Rightarrow> ase_masses ?none)"
    by simp
  have w2: "1 < length (where_eq [''H:mu'', ''Si'', ''H:mu''] ''H:mu'')"
    by (simp add: where_eq_def np_str_def)
  have w1: "where_eq [''Si'', ''H:mu''] ''H:mu'' = [1]"
    by (simp add: where_eq_def np_str_def)
  have w0: "where_eq [''Si'', ''H''] ''H:mu'' = []"
    by (simp add: where_eq_def np_str_def)
  have p0: "py_index (length [''Si'', ''H'']) (- 1) = Some 1"
    and q0: "py_index (length [28, 1 :: real]) (- 1) = Some 1"
    and n0: "np_str ''H:mu'' = ''H:mu''"
    by (simp_all add: py_index_def np_str_def)
  have a: "muon_vibrational_average_write (113 / 1000) ?displ ?two ?ph ''.'' ''Si'' ''castep''
             ''independent'' 0 ''H:mu'' 20 3 0 = Inl MuonAverageError"
    using write_muon_lookup
      [OF s2 m2 refl, where mu_symbol = "''H:mu''" and meth = "''independent''"
         and ev = "[1 :: real]" and ec = "[2 :: real]" and sigma_n = 3
         and m_mu_amu = "113 / 1000" and displ = ?displ and ph = ?ph and phpath = "''.''"
         and phfile = "''Si''" and phonon_source_type = "''castep''" and mu_index = 0
         and grid_n = 20 and displace_T = 0] w2
    by blast
  have b: "muon_vibrational_average_write (113 / 1000) ?displ ?one ?ph ''.'' ''Si'' ''castep''
             ''montecarlo'' 0 ''H:mu'' 20 3 0 =
           Inr \<lparr>cell_species = [''Si'', ''H:mu''], cell_masses = [28, 113 / 1000],
                displaced_positions = [11, 12],
                info_displacement_scheme = MonteCarloDisplacements [1] [2] [28, 113 / 1000],
                info_muon_index = 1\<rparr>"
    using write_muon_lookup
      [OF s1 m1 refl, where mu_symbol = "''H:mu''" and meth = "''montecarlo''"
         and ev = "[1 :: real]" and ec = "[2 :: real]" and sigma_n = 3
         and m_mu_amu = "113 / 1000" and displ = ?displ and ph = ?ph and phpath = "''.''"
         and phfile = "''Si''" and phonon_source_type = "''castep''" and mu_index = 0
         and grid_n = 20 and displace_T = 0] w1
    by simp
  have c: "muon_vibrational_average_write (113 / 1000) ?displ ?none ?ph ''.'' ''Si'' ''castep''
             ''independent'' (- 1) ''H:mu'' 20 3 0 =
           Inr \<lparr>cell_species = [''Si'', ''H:mu''], cell_masses = [28, 113 / 1000],
                displaced_positions = [11, 12],
                info_displacement_scheme =
                  IndependentDisplacements [1] [2] [28, 113 / 1000] (- 1) 3,
                info_muon_index = - 1\<rparr>"
    using write_muon_lookup
      [OF s0 m0 refl, where mu_symbol = "''H:mu''" and meth = "''independent''"
         and ev = "[1 :: real]" and ec = "[2 :: real]" and sigma_n = 3
         and m_mu_amu = "113 / 1000" and displ = ?displ and ph = ?ph and phpath = "''.''"
         and phfile = "''Si''" and phonon_source_type = "''castep''" and mu_index = "- 1"
         and grid_n = 20 and displace_T = 0] w0 p0 q0 n0
    by simp
  from a b c show ?thesis
    by (intro conjI)
qed

text \<open>
  C9. When the parameter file leaves \<open>average_T\<close> unspecified (Python's \<^verbatim>\<open>None\<close>),
  \<^verbatim>\<open>nq_entry\<close> dispatches with \<open>average_T\<close> set to the value of \<open>displace_T\<close> and all
  other parameters as they were, for the write and for the read function alike.
\<close>

theorem nq_entry_default_average_T:
  assumes "params ''average_T'' = Some None"
      and "params ''displace_T'' = Some d"
  shows "nq_entry w write_fn read_fn params out =
           dispatch w write_fn read_fn (params(''average_T'' \<mapsto> d)) out
       \<and> (params(''average_T'' \<mapsto> d)) ''average_T'' = (params(''average_T'' \<mapsto> d)) ''displace_T''
       \<and> (\<forall>k. k \<noteq> ''average_T'' \<longrightarrow> (params(''average_T'' \<mapsto> d)) k = params k)
       \<and> dispatch w write_fn read_fn (params(''average_T'' \<mapsto> d)) out =
           (if w then
              (case write_fn (params(''average_T'' \<mapsto> d)) of
                 Inl (IOError e) \<Rightarrow> Inr (print e out)
               | Inl e \<Rightarrow> Inl e
               | Inr u \<Rightarrow> Inr out)
            else
              (case read_fn (params(''average_T'' \<mapsto> d)) of
                 Inl (IOError e) \<Rightarrow>
                   Inr (print (''\<newline>This could mean it was impossible to find the displaced '' @
                               ''structure folder: maybe you wanted to run with the '' @
                               ''-w option to write it?\<newline>'')
                          (print (''Read/write error: '' @ e) out))
               | Inl e \<Rightarrow> Inl e
               | Inr u \<Rightarrow> Inr out))"
  using assms by (simp add: nq_entry_def dispatch_def)

theorem nq_entry_default_average_T_witness:
  "nq_entry True
     (\<lambda>p. if p ''average_T'' = Some (Some (300 :: real)) then Inr () else Inl ValueError)
     (\<lambda>p. Inl KeyError)
     [''average_T'' \<mapsto> None, ''displace_T'' \<mapsto> Some 300] ''log'' = Inr ''log''
   \<and> nq_entry False
     (\<lambda>p. Inl KeyError)
     (\<lambda>p. if p ''average_T'' = Some (Some (300 :: real)) then Inr () else Inl ValueError)
     [''average_T'' \<mapsto> None, ''displace_T'' \<mapsto> Some 300] ''log'' = Inr ''log''"
proof -
  let ?p = "[''average_T'' \<mapsto> None, ''displace_T'' \<mapsto> Some (300 :: real)]"
  let ?f = "\<lambda>p. if p ''average_T'' = Some (Some (300 :: real)) then Inr () else Inl ValueError"
  let ?g = "\<lambda>p :: real params. Inl KeyError :: error + unit"
  have a: "?p ''average_T'' = Some None"
    by simp
  have d: "?p ''displace_T'' = Some (Some 300)"
    by simp
  have "nq_entry True ?f ?g ?p ''log'' =
        dispatch True ?f ?g (?p(''average_T'' \<mapsto> Some 300)) ''log''"
    by (rule conjunct1 [OF nq_entry_default_average_T [OF a d]])
  also have "\<dots> = Inr ''log''"
    by (simp add: dispatch_def)
  finally have w: "nq_entry True ?f ?g ?p ''log'' = Inr ''log''" .
  have "nq_entry False ?g ?f ?p ''log'' =
        dispatch False ?g ?f (?p(''average_T'' \<mapsto> Some 300)) ''log''"
    by (rule conjunct1 [OF nq_entry_default_average_T [OF a d]])
  also have "\<dots> = Inr ''log''"
    by (simp add: dispatch_def)
  finally have r: "nq_entry False ?g ?f ?p ''log'' = Inr ''log''" .
  from w r show ?thesis
    by (rule conjI)
qed

text \<open>
  C8. The claim that listing the parameter sets prints nothing and that importing the
  module has no side effect fails on the code: with nothing printed before, importing
  the module leaves the references message on standard output, and
  \<^verbatim>\<open>DFTBArgs.list()\<close> prints the names and returns \<^verbatim>\<open>None\<close>.
\<close>

theorem dftb_pars_prints_counterexample:
  "stdout (import_dftb_pars [(''3ob-3-1'', 0 :: nat), (''pbc-0-3'', 1)] []) \<noteq> []
   \<and> DFTBArgs_list \<lparr>stdout = [], parameter_sets = [(''3ob-3-1'', 0 :: nat), (''pbc-0-3'', 1)]\<rparr> =
       ((), \<lparr>stdout = ''3ob-3-1, pbc-0-3\<newline>'',
             parameter_sets = [(''3ob-3-1'', 0), (''pbc-0-3'', 1)]\<rparr>)"
  by (simp add: import_dftb_pars_def print_references_def print_def DFTBArgs_list_def)

text \<open>
  C8, as the code has it. \<^verbatim>\<open>DFTBArgs.list()\<close> prints one line, the names of the
  parameter sets joined by a comma and a space, returns \<^verbatim>\<open>None\<close> and leaves the
  parameter sets as they are. Importing the module prints the references message and
  builds the parameter sets. Both always add text to standard output.
\<close>

theorem dftb_pars_prints:
  "DFTBArgs_list m =
     ((), m\<lparr>stdout := stdout m @ join '', '' (map fst (parameter_sets m)) @ ''\<newline>''\<rparr>)
   \<and> length (stdout m) < length (stdout (snd (DFTBArgs_list m)))
   \<and> parameter_sets (snd (DFTBArgs_list m)) = parameter_sets m
   \<and> stdout (import_dftb_pars found out) = out @ references_msg @ ''\<newline>''
   \<and> length out < length (stdout (import_dftb_pars found out))
   \<and> parameter_sets (import_dftb_pars found out) = found"
  by (simp add: import_dftb_pars_def print_references_def print_def DFTBArgs_list_def)

end
